theory Spec2Isabelle
  imports Main "HOL-Library.Word" "HOL-Library.Sublist"
begin

section \<open>Formatting helpers shared by the planner and the executor\<close>

text \<open>
  Go's \<^verbatim>\<open>fmt.Sprintf("%d", n)\<close> and \<^verbatim>\<open>strconv.Itoa(n)\<close>: the decimal rendering
  of an integer, without leading zeros, with a leading minus sign for a negative one.
\<close>

definition digit_char :: "nat \<Rightarrow> char" where
  "digit_char d = ''0123456789'' ! d"

function dec_nat :: "nat \<Rightarrow> string" where
  "dec_nat n = (if n < 10 then [digit_char n] else dec_nat (n div 10) @ [digit_char (n mod 10)])"
  by pat_completeness auto
termination
  by (relation "measure id") auto

declare dec_nat.simps [simp del]

definition dec_int :: "int \<Rightarrow> string" where
  "dec_int i = (if i < 0 then CHR ''-'' # dec_nat (nat (- i)) else dec_nat (nat i))"

section \<open>The node-selection planner (package plan)\<close>

subsection \<open>Data model\<close>

text \<open>A data source hash is a \<^verbatim>\<open>uint64\<close>; field and selection-set refs are Go \<^verbatim>\<open>int\<close>s.\<close>

type_synonym DSHash = "64 word"

text \<open>
  Modelled from the spec: \<^verbatim>\<open>FederationFieldConfiguration\<close> is declared outside the files at
  hand; the planner reads its \<^verbatim>\<open>TypeName\<close> and its \<^verbatim>\<open>SelectionSet\<close> only.
\<close>

record FederationFieldConfiguration =
  TypeName :: string
  SelectionSet :: string

record keyRequirements =
  dsHash :: DSHash
  path :: string
  isInterfaceObject :: bool
  possibleKeys :: "FederationFieldConfiguration list"
  requestedByFieldRefs :: "int list"

record fieldRequirements =
  fr_dsHash :: DSHash
  fr_path :: string
  selectionSet :: string
  fr_requestedByFieldRefs :: "int list"

record pendingKeyRequirements =
  existsTracker :: "DSHash set"
  parentDSHashes :: "DSHash list"
  requirementConfigs :: "keyRequirements list"

record pendingFieldRequirements =
  fr_existsTracker :: "string set"
  fr_requirementConfigs :: "fieldRequirements list"

text \<open>
  Modelled from the spec: the \<^verbatim>\<open>DataSource\<close> capability of the planner is an interface
  whose implementations live outside the files at hand. It is a record of its methods;
  \<^verbatim>\<open>RequiredFieldsByRequires\<close> returns \<open>None\<close> where the Go method returns
  \<^verbatim>\<open>exists = false\<close>, and \<open>KeysByTypeAndResolvability t r\<close> is
  \<^verbatim>\<open>FederationConfiguration().Keys.FilterByTypeAndResolvability(t, r)\<close>.
\<close>

record DataSource =
  Hash :: DSHash
  RequiredFieldsByKey :: "string \<Rightarrow> FederationFieldConfiguration list"
  RequiredFieldsByRequires :: "string \<Rightarrow> string \<Rightarrow> FederationFieldConfiguration option"
  HasKeyRequirement :: "string \<Rightarrow> string \<Rightarrow> bool"
  HasInterfaceObject :: "string \<Rightarrow> bool"
  HasEntityInterface :: "string \<Rightarrow> bool"
  KeysByTypeAndResolvability :: "string \<Rightarrow> bool \<Rightarrow> FederationFieldConfiguration list"

text \<open>
  Modelled from the spec: \<^verbatim>\<open>RequiredFieldsFragment(typeName, sel, includeTypename)\<close> parses
  the requirement's selection-set string into a fragment on \<open>typeName\<close>, with
  \<^verbatim>\<open>__typename\<close> added when \<open>includeTypename\<close> holds. The parser is outside the files at
  hand: whether a selection-set string parses is the parameter \<open>parses\<close>, and the report's
  \<^verbatim>\<open>HasErrors()\<close> is the second component.
\<close>

record Fragment =
  onType :: string
  withTypename :: bool
  fragmentFields :: string

definition RequiredFieldsFragment ::
  "(string \<Rightarrow> string \<Rightarrow> bool) \<Rightarrow> string \<Rightarrow> string \<Rightarrow> bool \<Rightarrow> Fragment \<times> bool" where
  "RequiredFieldsFragment parses typeName requiredFields includeTypename =
     (\<lparr>onType = typeName, withTypename = includeTypename, fragmentFields = requiredFields\<rparr>,
      \<not> parses typeName requiredFields)"

text \<open>
  Modelled from the spec: \<^verbatim>\<open>addRequiredFields\<close> injects the fragment into a selection set
  of the operation and returns \<^verbatim>\<open>(skipFieldRefs, injectedFieldRefs)\<close>. The operation
  document is the list of injections made so far; which refs an injection yields, and
  whether it reports an error, is the parameter \<open>refsOf\<close> of the environment.
\<close>

type_synonym Operation = "(int \<times> Fragment) list"

record ast_env =
  parses :: "string \<Rightarrow> string \<Rightarrow> bool"
  refsOf :: "Operation \<Rightarrow> Fragment \<Rightarrow> int \<Rightarrow> int list \<times> int list \<times> bool"

definition addRequiredFields ::
  "ast_env \<Rightarrow> Operation \<Rightarrow> Fragment \<Rightarrow> int \<Rightarrow> Operation \<times> int list \<times> int list \<times> bool" where
  "addRequiredFields env operation key operationSelectionSet =
     (operation @ [(operationSelectionSet, key)], refsOf env operation key operationSelectionSet)"

text \<open>
  Modelled from the spec: a \<^verbatim>\<open>NodeSuggestion\<close> carries the data source hash and the
  \<^verbatim>\<open>Selected\<close> flag; the response tree gives, for the tree node of a field ref, the item
  ids stored at its parent.
\<close>

record NodeSuggestion =
  DataSourceHash :: DSHash
  Selected :: bool

record NodeSuggestions =
  items :: "NodeSuggestion list"
  parentData :: "int \<rightharpoonup> nat list"

text \<open>
  The visitor. The walker is represented by what the visitor reads and writes of it:
  the name of the enclosing type definition, and the internal errors handed to
  \<^verbatim>\<open>StopWithInternalErr\<close>, in order.
\<close>

record nodeSelectionVisitor =
  operation :: Operation
  enclosingTypeName :: string
  internalErrs :: "string list"
  dataSources :: "DataSource list"
  nodeSuggestions :: NodeSuggestions
  selectionSetRefs :: "int list"
  skipFieldsRefs :: "int list"
  pendingKeyRequirements :: "int \<rightharpoonup> pendingKeyRequirements"
  pendingFieldRequirements :: "int \<rightharpoonup> pendingFieldRequirements"
  visitedFieldsRequiresChecks :: "string set"
  visitedFieldsKeyChecks :: "string set"
  fieldDependsOn :: "string \<rightharpoonup> int list"
  fieldRequirementsConfigs :: "string \<rightharpoonup> FederationFieldConfiguration list"
  fieldLandedTo :: "int \<rightharpoonup> DSHash"
  hasNewFields :: bool

definition InvalidRef :: int where
  "InvalidRef = - 1"

definition StopWithInternalErr :: "string \<Rightarrow> nodeSelectionVisitor \<Rightarrow> nodeSelectionVisitor" where
  "StopWithInternalErr msg c = c\<lparr>internalErrs := internalErrs c @ [msg]\<rparr>"

definition currentSelectionSet :: "nodeSelectionVisitor \<Rightarrow> int" where
  "currentSelectionSet c = (if selectionSetRefs c = [] then InvalidRef else last (selectionSetRefs c))"

text \<open>\<^verbatim>\<open>fmt.Sprintf("%d.%d", fieldRef, dsHash)\<close> and \<^verbatim>\<open>fmt.Sprintf("%d.%s", dsHash, sel)\<close>.\<close>

definition fieldKey :: "int \<Rightarrow> DSHash \<Rightarrow> string" where
  "fieldKey fieldRef h = dec_int fieldRef @ ''.'' @ dec_nat (unat h)"

definition existsKey :: "DSHash \<Rightarrow> string \<Rightarrow> string" where
  "existsKey h sel = dec_nat (unat h) @ ''.'' @ sel"

text \<open>A Go map read of a missing key gives the nil slice; \<^verbatim>\<open>append\<close> then starts from it.\<close>

definition lookupSlice :: "('k \<rightharpoonup> 'v list) \<Rightarrow> 'k \<Rightarrow> 'v list" where
  "lookupSlice m k = (case m k of None \<Rightarrow> [] | Some xs \<Rightarrow> xs)"

subsection \<open>Collecting pending requirements\<close>

text \<open>
  The merge loop of \<^verbatim>\<open>addPendingFieldRequirements\<close>: the first requirement whose
  \<^verbatim>\<open>selectionSet\<close> equals the new one's receives the requesting field ref, unless it
  holds it already; the loop then breaks. The data source hash is not compared.
\<close>

fun mergeFieldRequester :: "string \<Rightarrow> int \<Rightarrow> fieldRequirements list \<Rightarrow> fieldRequirements list" where
  "mergeFieldRequester sel r [] = []"
| "mergeFieldRequester sel r (x # xs) =
     (if selectionSet x = sel
      then (if r \<in> set (fr_requestedByFieldRefs x) then x
            else x\<lparr>fr_requestedByFieldRefs := fr_requestedByFieldRefs x @ [r]\<rparr>) # xs
      else x # mergeFieldRequester sel r xs)"

definition addPendingFieldRequirements ::
  "int \<Rightarrow> DSHash \<Rightarrow> FederationFieldConfiguration \<Rightarrow> string \<Rightarrow> nodeSelectionVisitor \<Rightarrow> nodeSelectionVisitor" where
  "addPendingFieldRequirements requestedByFieldRef h fieldConfiguration currentPath c =
     (let cur = currentSelectionSet c;
          requirements = (case pendingFieldRequirements c cur of
                            None \<Rightarrow> \<lparr>fr_existsTracker = {}, fr_requirementConfigs = []\<rparr>
                          | Some r \<Rightarrow> r);
          k = existsKey h (SelectionSet fieldConfiguration);
          requirements' =
            (if k \<notin> fr_existsTracker requirements
             then requirements\<lparr>fr_existsTracker := insert k (fr_existsTracker requirements),
                    fr_requirementConfigs := fr_requirementConfigs requirements @
                      [\<lparr>fr_dsHash = h, fr_path = currentPath,
                        selectionSet = SelectionSet fieldConfiguration,
                        fr_requestedByFieldRefs = [requestedByFieldRef]\<rparr>]\<rparr>
             else requirements\<lparr>fr_requirementConfigs :=
                    mergeFieldRequester (SelectionSet fieldConfiguration) requestedByFieldRef
                      (fr_requirementConfigs requirements)\<rparr>);
          fk = fieldKey requestedByFieldRef h
      in c\<lparr>pendingFieldRequirements := (pendingFieldRequirements c)(cur \<mapsto> requirements'),
            fieldRequirementsConfigs := (fieldRequirementsConfigs c)
              (fk \<mapsto> lookupSlice (fieldRequirementsConfigs c) fk @ [fieldConfiguration])\<rparr>)"

text \<open>The merge loop of \<^verbatim>\<open>addPendingKeyRequirements\<close>, which compares the data source hash.\<close>

fun mergeKeyRequester :: "DSHash \<Rightarrow> int \<Rightarrow> keyRequirements list \<Rightarrow> keyRequirements list" where
  "mergeKeyRequester h r [] = []"
| "mergeKeyRequester h r (x # xs) =
     (if dsHash x = h
      then (if r \<in> set (requestedByFieldRefs x) then x
            else x\<lparr>requestedByFieldRefs := requestedByFieldRefs x @ [r]\<rparr>) # xs
      else x # mergeKeyRequester h r xs)"

definition addPendingKeyRequirements ::
  "int \<Rightarrow> DSHash \<Rightarrow> FederationFieldConfiguration list \<Rightarrow> bool \<Rightarrow> string \<Rightarrow> DSHash list \<Rightarrow>
   nodeSelectionVisitor \<Rightarrow> nodeSelectionVisitor" where
  "addPendingKeyRequirements requestedByFieldRef h possibleFieldConfigurations isIO parentPath parentHashes c =
     (let cur = currentSelectionSet c;
          requirements = (case pendingKeyRequirements c cur of
                            None \<Rightarrow> \<lparr>existsTracker = {}, parentDSHashes = parentHashes,
                                     requirementConfigs = []\<rparr>
                          | Some r \<Rightarrow> r);
          requirements' =
            (if h \<notin> existsTracker requirements
             then requirements\<lparr>existsTracker := insert h (existsTracker requirements),
                    requirementConfigs := requirementConfigs requirements @
                      [\<lparr>dsHash = h, path = parentPath, isInterfaceObject = isIO,
                        possibleKeys = possibleFieldConfigurations,
                        requestedByFieldRefs = [requestedByFieldRef]\<rparr>]\<rparr>
             else requirements\<lparr>requirementConfigs :=
                    mergeKeyRequester h requestedByFieldRef (requirementConfigs requirements)\<rparr>)
      in c\<lparr>pendingKeyRequirements := (pendingKeyRequirements c)(cur \<mapsto> requirements')\<rparr>)"

subsection \<open>Flushing requirements into the operation\<close>

definition typeNameField :: string where
  "typeNameField = ''__typename''"

text \<open>
  The bodies of the three \<^verbatim>\<open>for ... range\<close> loops that record the dependencies: the one
  of \<^verbatim>\<open>addFieldRequirementsToOperation\<close>, and the two of
  \<^verbatim>\<open>addKeyRequirementsToOperation\<close>, whose first loop skips (\<^verbatim>\<open>continue\<close>) a requesting
  field ref that is among the injected ones.
\<close>

definition addFieldDependency :: "DSHash \<Rightarrow> int list \<Rightarrow> int \<Rightarrow> nodeSelectionVisitor \<Rightarrow> nodeSelectionVisitor" where
  "addFieldDependency h requiredFieldRefs requestedByFieldRef c =
     (let fk = fieldKey requestedByFieldRef h
      in c\<lparr>fieldDependsOn := (fieldDependsOn c)
             (fk \<mapsto> lookupSlice (fieldDependsOn c) fk @ requiredFieldRefs)\<rparr>)"

definition addKeyDependency ::
  "DSHash \<Rightarrow> int list \<Rightarrow> FederationFieldConfiguration \<Rightarrow> int \<Rightarrow> nodeSelectionVisitor \<Rightarrow> nodeSelectionVisitor" where
  "addKeyDependency h requiredFieldRefs fieldConfiguration requestedByFieldRef c =
     (if requestedByFieldRef \<in> set requiredFieldRefs then c
      else (let fk = fieldKey requestedByFieldRef h
            in c\<lparr>fieldDependsOn := (fieldDependsOn c)
                   (fk \<mapsto> lookupSlice (fieldDependsOn c) fk @ requiredFieldRefs),
                 fieldRequirementsConfigs := (fieldRequirementsConfigs c)
                   (fk \<mapsto> lookupSlice (fieldRequirementsConfigs c) fk @ [fieldConfiguration])\<rparr>))"

definition recordLandedTo :: "DSHash \<Rightarrow> int \<Rightarrow> nodeSelectionVisitor \<Rightarrow> nodeSelectionVisitor" where
  "recordLandedTo h requiredFieldRef c = c\<lparr>fieldLandedTo := (fieldLandedTo c)(requiredFieldRef \<mapsto> h)\<rparr>"

definition addFieldRequirementsToOperation ::
  "ast_env \<Rightarrow> int \<Rightarrow> fieldRequirements \<Rightarrow> nodeSelectionVisitor \<Rightarrow> nodeSelectionVisitor" where
  "addFieldRequirementsToOperation env selectionSetRef requirements c =
     (let typeName = enclosingTypeName c;
          (key, parseErr) = RequiredFieldsFragment (parses env) typeName (selectionSet requirements) False
      in if parseErr
         then StopWithInternalErr (''failed to parse required fields '' @ selectionSet requirements @
                '' for '' @ typeName @ '' at path '' @ fr_path requirements) c
         else
           (let (op', skipFieldRefs, requiredFieldRefs, addErr) =
                  addRequiredFields env (operation c) key selectionSetRef;
                c1 = c\<lparr>operation := op'\<rparr>
            in if addErr
               then StopWithInternalErr (''failed to add required fields '' @ selectionSet requirements @
                      '' for '' @ typeName @ '' at path '' @ fr_path requirements) c1
               else
                 fold (addFieldDependency (fr_dsHash requirements) requiredFieldRefs)
                   (fr_requestedByFieldRefs requirements)
                   (c1\<lparr>skipFieldsRefs := skipFieldsRefs c1 @ skipFieldRefs\<rparr>)))"

definition processPendingFieldRequirements ::
  "ast_env \<Rightarrow> int \<Rightarrow> nodeSelectionVisitor \<Rightarrow> nodeSelectionVisitor" where
  "processPendingFieldRequirements env selectionSetRef c =
     (case pendingFieldRequirements c selectionSetRef of
        None \<Rightarrow> c
      | Some configs \<Rightarrow>
          fold (addFieldRequirementsToOperation env selectionSetRef) (fr_requirementConfigs configs)
            (c\<lparr>pendingFieldRequirements := (pendingFieldRequirements c)(selectionSetRef := None)\<rparr>))"

definition addKeyRequirementsToOperation ::
  "ast_env \<Rightarrow> int \<Rightarrow> string \<Rightarrow> keyRequirements \<Rightarrow> DataSource \<Rightarrow> FederationFieldConfiguration \<Rightarrow>
   nodeSelectionVisitor \<Rightarrow> nodeSelectionVisitor" where
  "addKeyRequirementsToOperation env selectionSetRef typeName requirements landedTo fieldConfiguration c =
     (let requirementsFromInterfaceObject = isInterfaceObject requirements;
          requirementsToInterfaceObject = HasInterfaceObject landedTo typeName;
          dissalowTypeName = (requirementsFromInterfaceObject \<and> requirementsToInterfaceObject);
          (key, parseErr) = RequiredFieldsFragment (parses env) typeName
                              (SelectionSet fieldConfiguration) (\<not> dissalowTypeName)
      in if parseErr
         then StopWithInternalErr (''failed to parse required fields '' @ SelectionSet fieldConfiguration @
                '' for '' @ typeName @ '' at path '' @ path requirements) c
         else
           (let (op', skipFieldRefs, requiredFieldRefs, addErr) =
                  addRequiredFields env (operation c) key selectionSetRef;
                c1 = c\<lparr>operation := op'\<rparr>
            in if addErr
               then StopWithInternalErr (''failed to add required fields '' @ SelectionSet fieldConfiguration @
                      '' for '' @ typeName @ '' at path '' @ path requirements) c1
               else
                 (let c2 = c1\<lparr>skipFieldsRefs := skipFieldsRefs c1 @ skipFieldRefs\<rparr>;
                      c3 = fold (addKeyDependency (dsHash requirements) requiredFieldRefs fieldConfiguration)
                             (requestedByFieldRefs requirements) c2
                  in fold (recordLandedTo (Hash landedTo)) requiredFieldRefs c3)))"

text \<open>
  \<^verbatim>\<open>matchDataSourcesByKeyConfiguration\<close>: the inner loop over the possible keys of the
  requirement for one data source, then the outer loop over the data sources whose hash
  is among \<open>dsHashes\<close>. The first key the data source has is injected and ends both loops.
\<close>

fun matchPossibleKeys ::
  "ast_env \<Rightarrow> int \<Rightarrow> keyRequirements \<Rightarrow> DataSource \<Rightarrow> FederationFieldConfiguration list \<Rightarrow>
   nodeSelectionVisitor \<Rightarrow> nodeSelectionVisitor option" where
  "matchPossibleKeys env selectionSetRef requirements ds [] c = None"
| "matchPossibleKeys env selectionSetRef requirements ds (cfg # cfgs) c =
     (if HasKeyRequirement ds (TypeName cfg) (SelectionSet cfg)
      then Some (addKeyRequirementsToOperation env selectionSetRef (TypeName cfg) requirements ds cfg c)
      else matchPossibleKeys env selectionSetRef requirements ds cfgs c)"

fun matchDataSources ::
  "ast_env \<Rightarrow> int \<Rightarrow> keyRequirements \<Rightarrow> DSHash list \<Rightarrow> DataSource list \<Rightarrow>
   nodeSelectionVisitor \<Rightarrow> bool \<times> nodeSelectionVisitor" where
  "matchDataSources env selectionSetRef requirements dsHashes [] c = (False, c)"
| "matchDataSources env selectionSetRef requirements dsHashes (ds # dss) c =
     (if Hash ds \<notin> set dsHashes
      then matchDataSources env selectionSetRef requirements dsHashes dss c
      else (case matchPossibleKeys env selectionSetRef requirements ds (possibleKeys requirements) c of
              Some c' \<Rightarrow> (True, c')
            | None \<Rightarrow> matchDataSources env selectionSetRef requirements dsHashes dss c))"

definition matchDataSourcesByKeyConfiguration ::
  "ast_env \<Rightarrow> int \<Rightarrow> keyRequirements \<Rightarrow> DSHash list \<Rightarrow> nodeSelectionVisitor \<Rightarrow>
   bool \<times> nodeSelectionVisitor" where
  "matchDataSourcesByKeyConfiguration env selectionSetRef requirements dsHashes c =
     matchDataSources env selectionSetRef requirements dsHashes (dataSources c) c"

text \<open>
  One round of \<^verbatim>\<open>processPendingKeyRequirements\<close>: the inner \<^verbatim>\<open>for i\<close> loop over the
  pending requirements, giving the new available hashes, the requirements still pending
  and the visitor.
\<close>

fun matchRound ::
  "ast_env \<Rightarrow> int \<Rightarrow> DSHash list \<Rightarrow> keyRequirements list \<Rightarrow> nodeSelectionVisitor \<Rightarrow>
   DSHash list \<times> keyRequirements list \<times> nodeSelectionVisitor" where
  "matchRound env selectionSetRef availableHashes [] c = ([], [], c)"
| "matchRound env selectionSetRef availableHashes (r # rs) c =
     (let (matched, c1) = matchDataSourcesByKeyConfiguration env selectionSetRef r availableHashes c;
          (newAvailableHashes, newPendingRequirements, c2) = matchRound env selectionSetRef availableHashes rs c1
      in if matched then (dsHash r # newAvailableHashes, newPendingRequirements, c2)
         else (newAvailableHashes, r # newPendingRequirements, c2))"

text \<open>
  The outer \<^verbatim>\<open>for hasPendingRequirements\<close> loop has no bound in the source: the result is
  \<open>None\<close> when it runs forever.
\<close>

partial_function (option) pendingRounds ::
  "ast_env \<Rightarrow> int \<Rightarrow> DSHash list \<Rightarrow> keyRequirements list \<Rightarrow> nodeSelectionVisitor \<Rightarrow>
   nodeSelectionVisitor option" where
  "pendingRounds env selectionSetRef availableHashes pendingRequirements c =
     (if pendingRequirements = [] then Some c
      else (case matchRound env selectionSetRef availableHashes pendingRequirements c of
              (newAvailableHashes, newPendingRequirements, c') \<Rightarrow>
                pendingRounds env selectionSetRef newAvailableHashes newPendingRequirements c'))"

declare pendingRounds.simps [code]

definition processPendingKeyRequirements ::
  "ast_env \<Rightarrow> int \<Rightarrow> nodeSelectionVisitor \<Rightarrow> nodeSelectionVisitor option" where
  "processPendingKeyRequirements env selectionSetRef c =
     (case pendingKeyRequirements c selectionSetRef of
        None \<Rightarrow> Some c
      | Some configs \<Rightarrow>
          pendingRounds env selectionSetRef (parentDSHashes configs) (requirementConfigs configs)
            (c\<lparr>pendingKeyRequirements := (pendingKeyRequirements c)(selectionSetRef := None)\<rparr>))"

definition EnterSelectionSet :: "int \<Rightarrow> nodeSelectionVisitor \<Rightarrow> nodeSelectionVisitor" where
  "EnterSelectionSet ref c = c\<lparr>selectionSetRefs := selectionSetRefs c @ [ref]\<rparr>"

text \<open>
  \<^verbatim>\<open>LeaveSelectionSet\<close>: \<open>None\<close> when the processing of the pending key requirements does
  not return, \<open>Inl\<close> where the Go code panics on the slice expression
  \<^verbatim>\<open>c.selectionSetRefs[:len(c.selectionSetRefs)-1]\<close> of an empty slice.
\<close>

definition LeaveSelectionSet ::
  "ast_env \<Rightarrow> int \<Rightarrow> nodeSelectionVisitor \<Rightarrow> (string + nodeSelectionVisitor) option" where
  "LeaveSelectionSet env ref c =
     map_option
       (\<lambda>c'. if selectionSetRefs c' = [] then Inl ''slice bounds out of range''
             else Inr (c'\<lparr>selectionSetRefs := butlast (selectionSetRefs c')\<rparr>))
       (processPendingKeyRequirements env ref (processPendingFieldRequirements env ref c))"

subsection \<open>Deciding the requirements of a field\<close>

definition handleFieldRequiredByRequires ::
  "int \<Rightarrow> string \<Rightarrow> string \<Rightarrow> string \<Rightarrow> string \<Rightarrow> DataSource \<Rightarrow> nodeSelectionVisitor \<Rightarrow> nodeSelectionVisitor" where
  "handleFieldRequiredByRequires fieldRef parentPath typeName fieldName currentPath dsConfig c =
     (let fk = fieldKey fieldRef (Hash dsConfig)
      in if fk \<in> visitedFieldsRequiresChecks c then c
         else
           (let c1 = c\<lparr>visitedFieldsRequiresChecks := insert fk (visitedFieldsRequiresChecks c)\<rparr>
            in if fieldName = typeNameField then c1
               else (case RequiredFieldsByRequires dsConfig typeName fieldName of
                       None \<Rightarrow> c1
                     | Some requiresConfiguration \<Rightarrow>
                         (addPendingFieldRequirements fieldRef (Hash dsConfig) requiresConfiguration
                            currentPath c1)\<lparr>hasNewFields := True\<rparr>)))"

text \<open>
  \<^verbatim>\<open>handleFieldsRequiredByKey\<close>. The result is \<open>Inl\<close> where the Go code panics on an index
  out of range (\<^verbatim>\<open>items[itemID]\<close>, \<^verbatim>\<open>keyConfigurations[0]\<close>). The branch marked
  \<^verbatim>\<open>TODO: planner error\<close> in the source returns the visitor with nothing recorded.
\<close>

definition handleFieldsRequiredByKey ::
  "int \<Rightarrow> string \<Rightarrow> string \<Rightarrow> string \<Rightarrow> string \<Rightarrow> DataSource \<Rightarrow> nodeSelectionVisitor \<Rightarrow>
   string + nodeSelectionVisitor" where
  "handleFieldsRequiredByKey fieldRef parentPath typeName fieldName currentPath dsConfig c =
     (let fk = fieldKey fieldRef (Hash dsConfig)
      in if fk \<in> visitedFieldsKeyChecks c then Inr c
         else
           (let c1 = c\<lparr>visitedFieldsKeyChecks := insert fk (visitedFieldsKeyChecks c)\<rparr>;
                hasRequiresCondition = (RequiredFieldsByRequires dsConfig typeName fieldName \<noteq> None)
            in case parentData (nodeSuggestions c1) fieldRef of
                 None \<Rightarrow> Inr c1
               | Some parentSuggestions \<Rightarrow>
                   if \<not> list_all (\<lambda>itemID. itemID < length (items (nodeSuggestions c1))) parentSuggestions
                   then Inl ''index out of range''
                   else
                     (let selectedParentsDSHashes =
                            map (\<lambda>itemID. DataSourceHash (items (nodeSuggestions c1) ! itemID))
                              (filter (\<lambda>itemID. Selected (items (nodeSuggestions c1) ! itemID)) parentSuggestions);
                          entityInterface = HasEntityInterface dsConfig typeName;
                          interfaceObject = HasInterfaceObject dsConfig typeName
                      in if fieldName = typeNameField \<and> \<not> entityInterface then Inr c1
                         else
                           (let sameAsParentDS = (length selectedParentsDSHashes = 1 \<and>
                                                  hd selectedParentsDSHashes = Hash dsConfig)
                            in if sameAsParentDS \<and> \<not> hasRequiresCondition then Inr c1
                               else
                                 (let byKey = RequiredFieldsByKey dsConfig typeName;
                                      keyConfigurations =
                                        (if byKey = [] \<and> hasRequiresCondition
                                         then KeysByTypeAndResolvability dsConfig typeName False
                                         else byKey)
                                  in if keyConfigurations = [] \<and> \<not> sameAsParentDS then Inr c1
                                     else if sameAsParentDS
                                     then (case keyConfigurations of
                                             [] \<Rightarrow> Inl ''index out of range''
                                           | k # _ \<Rightarrow>
                                               Inr ((addPendingKeyRequirements fieldRef (Hash dsConfig) [k] False
                                                       parentPath selectedParentsDSHashes c1)
                                                     \<lparr>hasNewFields := True\<rparr>))
                                     else Inr ((addPendingKeyRequirements fieldRef (Hash dsConfig)
                                                  keyConfigurations interfaceObject parentPath
                                                  selectedParentsDSHashes c1)
                                                \<lparr>hasNewFields := True\<rparr>))))))"

subsection \<open>A planning scenario used to evaluate the planner\<close>

text \<open>
  Type \<open>User\<close> is an entity of three subgraphs: data source 1 resolves it by key
  \<open>email\<close>, data source 2 by key \<open>id\<close>, data source 3 declares no key for it. The walker
  stands in selection set 7 (the selection of a \<open>User\<close> fetched from data source 1); every
  selection-set string parses, and injecting a fragment yields the field refs 5 and 7.
\<close>

definition userCfg :: "string \<Rightarrow> FederationFieldConfiguration" where
  "userCfg sel = \<lparr>TypeName = ''User'', SelectionSet = sel\<rparr>"

definition subgraph :: "DSHash \<Rightarrow> string list \<Rightarrow> bool \<Rightarrow> DataSource" where
  "subgraph h keys io =
     \<lparr>Hash = h,
      RequiredFieldsByKey = (\<lambda>t. if t = ''User'' then map userCfg keys else []),
      RequiredFieldsByRequires = (\<lambda>t f. None),
      HasKeyRequirement = (\<lambda>t sel. t = ''User'' \<and> sel \<in> set keys),
      HasInterfaceObject = (\<lambda>t. io),
      HasEntityInterface = (\<lambda>t. False),
      KeysByTypeAndResolvability = (\<lambda>t r. [])\<rparr>"

definition planEnv :: ast_env where
  "planEnv = \<lparr>parses = (\<lambda>t sel. True), refsOf = (\<lambda>operation key ss. ([5, 7], [5, 7], False))\<rparr>"

definition planStart :: nodeSelectionVisitor where
  "planStart =
     \<lparr>operation = [], enclosingTypeName = ''User'', internalErrs = [],
      dataSources = [subgraph 1 [''email''] False, subgraph 2 [''id''] False, subgraph 3 [] False],
      nodeSuggestions = \<lparr>items = [\<lparr>DataSourceHash = 1, Selected = True\<rparr>],
                         parentData = [4 \<mapsto> [0], 5 \<mapsto> [0]]\<rparr>,
      selectionSetRefs = [7], skipFieldsRefs = [],
      pendingKeyRequirements = Map.empty, pendingFieldRequirements = Map.empty,
      visitedFieldsRequiresChecks = {}, visitedFieldsKeyChecks = {},
      fieldDependsOn = Map.empty, fieldRequirementsConfigs = Map.empty, fieldLandedTo = Map.empty,
      hasNewFields = False\<rparr>"

section \<open>The execution engine (package execution)\<close>

subsection \<open>Byte slices, literals and string helpers\<close>

text \<open>
  A Go \<^verbatim>\<open>[]byte\<close> whose nil-ness the code tests is a \<open>string option\<close>, \<open>None\<close> being the
  nil slice; \<^verbatim>\<open>len\<close> of it, its bytes, and \<^verbatim>\<open>bytes.Equal\<close> with a literal (which does not
  tell nil from empty) follow.
\<close>

definition blen :: "string option \<Rightarrow> nat" where
  "blen b = (case b of None \<Rightarrow> 0 | Some s \<Rightarrow> length s)"

definition bstr :: "string option \<Rightarrow> string" where
  "bstr b = (case b of None \<Rightarrow> [] | Some s \<Rightarrow> s)"

definition bytes_Equal :: "string option \<Rightarrow> string \<Rightarrow> bool" where
  "bytes_Equal a b = (bstr a = b)"

text \<open>
  Modelled from the spec: the byte constants of package \<^verbatim>\<open>literal\<close> and the runes of
  package \<^verbatim>\<open>runes\<close> are declared outside the files at hand; they are the JSON and
  template punctuation the spec names.
\<close>

definition NULL :: string where "NULL = ''null''"
definition LBRACE :: string where "LBRACE = ''{''"
definition RBRACE :: string where "RBRACE = ''}''"
definition LBRACK :: string where "LBRACK = ''[''"
definition RBRACK :: string where "RBRACK = '']''"
definition COMMA :: string where "COMMA = '',''"
definition COLON :: string where "COLON = '':''"
definition QUOTE :: string where "QUOTE = [CHR 0x22]"
definition DOT :: string where "DOT = ''.''"
definition DOUBLE_LBRACE :: string where "DOUBLE_LBRACE = ''{{''"
definition DOUBLE_RBRACE :: string where "DOUBLE_RBRACE = ''}}''"
definition SPACE :: char where "SPACE = CHR 0x20"
definition TAB :: char where "TAB = CHR 0x09"
definition LINETERMINATOR :: char where "LINETERMINATOR = CHR 0x0A"

text \<open>The functions of Go's \<^verbatim>\<open>strings\<close> and \<^verbatim>\<open>bytes\<close> packages that \<^verbatim>\<open>ResolveArgs\<close> calls.\<close>

fun Contains :: "string \<Rightarrow> string \<Rightarrow> bool" where
  "Contains [] sub = (sub = [])"
| "Contains (c # cs) sub = (prefix sub (c # cs) \<or> Contains cs sub)"

definition TrimFunc :: "(char \<Rightarrow> bool) \<Rightarrow> string \<Rightarrow> string" where
  "TrimFunc f s = rev (dropWhile f (rev (dropWhile f s)))"

definition TrimPrefix :: "string \<Rightarrow> string \<Rightarrow> string" where
  "TrimPrefix s p = (if prefix p s then drop (length p) s else s)"

definition Count :: "string \<Rightarrow> char \<Rightarrow> nat" where
  "Count s c = length (filter (\<lambda>x. x = c) s)"

fun Split :: "string \<Rightarrow> char \<Rightarrow> string list" where
  "Split [] c = [[]]"
| "Split (x # xs) c =
     (if x = c then [] # Split xs c
      else (case Split xs c of [] \<Rightarrow> [[x]] | y # ys \<Rightarrow> (x # y) # ys))"

subsection \<open>Data model\<close>

datatype error = KeyPathNotFoundError | OtherError string

datatype Instruction = KeepStreamAlive | CloseConnection | CloseConnectionIfNotStream

datatype OperationType =
  OperationTypeUnknown | OperationTypeQuery | OperationTypeMutation | OperationTypeSubscription

datatype Argument =
    StaticVariableArgument string string
  | ObjectVariableArgument string "string list"
  | ContextVariableArgument string string
  | ListArgument string "Argument list"

record ResolvedArgument =
  Key :: string
  Value :: string

record Context =
  Variables :: "64 word \<rightharpoonup> string"
  ExtraArguments :: "Argument list"

text \<open>
  A data source of the executor is known by its \<^verbatim>\<open>Resolve(ctx, args, out)\<close> only: the
  bytes it writes to the buffer it is handed, and the instruction it returns.
\<close>

record DataSourceInvocation =
  Args :: "Argument list"
  Resolve :: "Context \<Rightarrow> ResolvedArgument list \<Rightarrow> string \<times> Instruction"

datatype Fetch =
    SingleFetch DataSourceInvocation string
  | SerialFetch "Fetch list"
  | ParallelFetch "Fetch list"

datatype BooleanCondition = IfEqual Argument Argument | IfNotEqual Argument Argument

datatype ListFilter = ListFilterFirstN int

text \<open>
  The plan tree. A \<^verbatim>\<open>Node\<close> is an \<^verbatim>\<open>*Object\<close> (fields, path, fetch, operation type), a
  \<^verbatim>\<open>*Field\<close>, a \<^verbatim>\<open>*List\<close> (path, value, filter) or a \<^verbatim>\<open>*Value\<close> (path, quote flag); a
  \<^verbatim>\<open>Field\<close> has a name, a value, a skip condition and the \<^verbatim>\<open>HasResolver\<close> flag. The path
  of an Object is tested for nil, so it is an option.
\<close>

datatype Node =
    ObjectNode "Field list" "string list option" "Fetch option" OperationType
  | FieldNode Field
  | ListNode "string list" Node "ListFilter option"
  | ValueNode "string list" bool
and Field = Field string Node "BooleanCondition option" bool

text \<open>
  The collaborators outside the repository: the output sink (\<^verbatim>\<open>io.Writer\<close>, with a state
  of type \<open>'w\<close>), \<^verbatim>\<open>jsonparser.Get\<close> (the value and the error it returns),
  \<^verbatim>\<open>jsonparser.ArrayEach\<close> (the values handed to the callback, and the error it returns),
  \<^verbatim>\<open>xxhash.Sum64\<close>, \<^verbatim>\<open>json.Marshal\<close> of the string map built from the given entries in
  order, \<^verbatim>\<open>fasttemplate\<close>'s \<^verbatim>\<open>NewTemplate\<close> followed by \<^verbatim>\<open>ExecuteFuncString\<close> (\<open>None\<close>
  when \<^verbatim>\<open>NewTemplate\<close> returns an error), and the Go scheduler: \<open>Schedule n\<close> is the order
  in which \<open>n\<close> goroutines started together run, and \<open>Missed i\<close> is the number of stores
  to \<^verbatim>\<open>e.instructions\<close> by other goroutines that fall between the load and the store of
  this slice in the prefetch goroutine of list item \<open>i\<close>.
\<close>

record 'w extern =
  Write :: "'w \<Rightarrow> string \<Rightarrow> 'w \<times> error option"
  Get :: "string \<Rightarrow> string list \<Rightarrow> string option \<times> error option"
  ArrayEach :: "string \<Rightarrow> string list \<Rightarrow> string option list \<times> error option"
  Sum64 :: "string \<Rightarrow> 64 word"
  Marshal :: "(string \<times> string) list \<Rightarrow> string"
  ExecuteTemplate :: "string \<Rightarrow> (string \<Rightarrow> string) \<Rightarrow> string option"
  Schedule :: "nat \<Rightarrow> nat list"
  Missed :: "nat \<Rightarrow> nat"

record 'w Executor =
  econtext :: Context
  out :: 'w
  err :: "error option"
  buffers :: "64 word \<rightharpoonup> string"
  instructions :: "Instruction list"

subsection \<open>Writing\<close>

definition writeBytes :: "'w extern \<Rightarrow> 'w Executor \<Rightarrow> string \<Rightarrow> 'w Executor" where
  "writeBytes env e data =
     (if err e \<noteq> None then e
      else (let (w, er) = Write env (out e) data in e\<lparr>out := w, err := er\<rparr>))"

subsection \<open>Argument resolution\<close>

text \<open>
  The callback handed to \<^verbatim>\<open>ExecuteFuncString\<close>: the bytes written for one tag. The second
  loop is \<open>tagByPrefix\<close>, where \<open>dottedKey\<close> is the key it compares the tag with; the
  first loop, entered when the trimmed tag has exactly one dot, works on the tag without
  its leading dot and leaves it so for the second loop.
\<close>

definition dottedKey :: "string \<Rightarrow> string \<Rightarrow> string" where
  "dottedKey tag key = (if prefix ''.'' tag \<and> \<not> prefix ''.'' key then ''.'' @ key else key)"

fun tagByPrefix :: "'w extern \<Rightarrow> string \<Rightarrow> ResolvedArgument list \<Rightarrow> string" where
  "tagByPrefix env tag [] = ''{{ '' @ tag @ '' }}''"
| "tagByPrefix env tag (r # rs) =
     (let key = dottedKey tag (Key r)
      in if \<not> prefix key tag then tagByPrefix env tag rs
         else (let key' = TrimPrefix tag key
               in if key' = [] then Value r
                  else bstr (fst (Get env (Value r) (Split (TrimPrefix key' ''.'') CHR ''.'')))))"

definition trimTag :: "string \<Rightarrow> string" where
  "trimTag tag = TrimFunc (\<lambda>r. r = SPACE \<or> r = TAB \<or> r = LINETERMINATOR) tag"

definition templateTag :: "'w extern \<Rightarrow> ResolvedArgument list \<Rightarrow> string \<Rightarrow> string" where
  "templateTag env resolved tag0 =
     (let tag1 = trimTag tag0
      in if Count tag1 CHR ''.'' = 1
         then (let tag = TrimPrefix tag1 ''.''
               in case find (\<lambda>r. Key r = tag) resolved of
                    Some r \<Rightarrow> Value r
                  | None \<Rightarrow> tagByPrefix env tag resolved)
         else tagByPrefix env tag1 resolved)"

text \<open>The body of the \<^verbatim>\<open>for i := range resolved\<close> loop over the templates.\<close>

definition resolveTemplate :: "'w extern \<Rightarrow> nat \<Rightarrow> ResolvedArgument list \<Rightarrow> ResolvedArgument list" where
  "resolveTemplate env i resolved =
     (if \<not> Contains (Value (resolved ! i)) DOUBLE_LBRACE then resolved
      else (case ExecuteTemplate env (Value (resolved ! i)) (templateTag env resolved) of
              None \<Rightarrow> resolved
            | Some v \<Rightarrow> resolved[i := (resolved ! i)\<lparr>Value := v\<rparr>]))"

text \<open>
  \<^verbatim>\<open>ResolveArgs\<close> calls itself for a \<^verbatim>\<open>ListArgument\<close>, and appends the extra arguments of
  the context at every level: the first parameter bounds the depth of these calls, and
  the result is \<open>None\<close> when the bound is reached.
\<close>

fun ResolveArgs ::
  "nat \<Rightarrow> 'w extern \<Rightarrow> Context \<Rightarrow> Argument list \<Rightarrow> string option \<Rightarrow> ResolvedArgument list option" where
  "ResolveArgs 0 env ctx args data = None"
| "ResolveArgs (Suc d) env ctx args data =
     (let args' = args @ ExtraArguments ctx;
          materialised = map (\<lambda>arg.
            (case arg of
               StaticVariableArgument name v \<Rightarrow> Some \<lparr>Key = name, Value = v\<rparr>
             | ObjectVariableArgument name keys \<Rightarrow>
                 Some \<lparr>Key = name, Value = bstr (fst (Get env (bstr data) keys))\<rparr>
             | ContextVariableArgument name variableName \<Rightarrow>
                 Some \<lparr>Key = name,
                       Value = (case Variables ctx (Sum64 env variableName) of None \<Rightarrow> [] | Some v \<Rightarrow> v)\<rparr>
             | ListArgument name arguments \<Rightarrow>
                 (case ResolveArgs d env ctx arguments data of
                    None \<Rightarrow> None
                  | Some listArgs \<Rightarrow>
                      Some \<lparr>Key = name, Value = Marshal env (map (\<lambda>a. (Key a, Value a)) listArgs)\<rparr>))) args'
      in if None \<in> set materialised then None
         else (let resolved = map the materialised;
                   resolved' = fold (resolveTemplate env) [0..<length resolved] resolved
               in Some (filter (\<lambda>r. \<not> prefix DOT (Key r)) resolved')))"

subsection \<open>Goroutines\<close>

text \<open>
  The goroutines that a \<^verbatim>\<open>ParallelFetch\<close> or the List case starts, and then waits for, are
  run one after the other, each to its end, in the order the scheduler picks. Whatever
  list \<open>Schedule\<close> returns, \<open>completionOrder\<close> makes a permutation of the indices below
  \<open>n\<close> of it: its indices below \<open>n\<close>, without repetition, then the indices it does not
  mention. With \<open>Schedule n = [0..<n]\<close> the goroutines run in the order they were started.
  The goroutines of the code run concurrently, with no lock on the fields of the
  executor: every run of the model is a run of the code, and the code has runs that the
  model does not have.
\<close>

definition completionOrder :: "'w extern \<Rightarrow> nat \<Rightarrow> nat list" where
  "completionOrder env n =
     (let s = remdups (filter (\<lambda>i. i < n) (Schedule env n))
      in s @ filter (\<lambda>i. i \<notin> set s) [0..<n])"

definition inCompletionOrder :: "'w extern \<Rightarrow> 'a list \<Rightarrow> 'a list" where
  "inCompletionOrder env xs = map (\<lambda>i. xs ! i) (completionOrder env (length xs))"

subsection \<open>Fetches\<close>

text \<open>
  A fetch returns the instruction and the buffers; \<open>None\<close> when \<^verbatim>\<open>ResolveArgs\<close> does not
  return. \<open>runEach\<close> runs the fetches of a list one after the other on the buffers and
  drops their instructions: a \<^verbatim>\<open>SerialFetch\<close> runs its fetches in the order of the list, a
  \<^verbatim>\<open>ParallelFetch\<close> in the order its goroutines complete.
\<close>

fun runEach :: "('s \<Rightarrow> ('i \<times> 's) option) list \<Rightarrow> 's \<Rightarrow> 's option" where
  "runEach [] s = Some s"
| "runEach (t # ts) s = (case t s of None \<Rightarrow> None | Some (i, s') \<Rightarrow> runEach ts s')"

fun doFetch ::
  "nat \<Rightarrow> 'w extern \<Rightarrow> Context \<Rightarrow> Fetch \<Rightarrow> string option \<Rightarrow> string \<Rightarrow> (64 word \<rightharpoonup> string) \<Rightarrow>
   (Instruction \<times> (64 word \<rightharpoonup> string)) option" where
  "doFetch d env ctx (SingleFetch s bufferName) data pth bufs =
     (case ResolveArgs d env ctx (Args s) data of
        None \<Rightarrow> None
      | Some args \<Rightarrow>
          (let (written, instruction) = Resolve s ctx args
           in Some (instruction, bufs(Sum64 env (pth @ ''.'' @ bufferName) \<mapsto> written))))"
| "doFetch d env ctx (SerialFetch fetches) data pth bufs =
     map_option (\<lambda>b. (CloseConnection, b))
       (runEach (map (\<lambda>f b. doFetch d env ctx f data pth b) fetches) bufs)"
| "doFetch d env ctx (ParallelFetch fetches) data pth bufs =
     map_option (\<lambda>b. (CloseConnection, b))
       (runEach (inCompletionOrder env (map (\<lambda>f b. doFetch d env ctx f data pth b) fetches)) bufs)"

subsection \<open>Conditions and resolvers\<close>

definition argumentValue :: "'w extern \<Rightarrow> Context \<Rightarrow> string option \<Rightarrow> Argument \<Rightarrow> string" where
  "argumentValue env ctx data arg =
     (case arg of
        ContextVariableArgument name variableName \<Rightarrow>
          (case Variables ctx (Sum64 env variableName) of None \<Rightarrow> [] | Some v \<Rightarrow> v)
      | ObjectVariableArgument name keys \<Rightarrow> bstr (fst (Get env (bstr data) keys))
      | StaticVariableArgument name v \<Rightarrow> v
      | ListArgument name arguments \<Rightarrow> [])"

fun Evaluate :: "'w extern \<Rightarrow> Context \<Rightarrow> string option \<Rightarrow> BooleanCondition \<Rightarrow> bool" where
  "Evaluate env ctx data (IfEqual l r) = (argumentValue env ctx data l = argumentValue env ctx data r)"
| "Evaluate env ctx data (IfNotEqual l r) = (\<not> (argumentValue env ctx data l = argumentValue env ctx data r))"

fun HasResolvers :: "Node \<Rightarrow> bool"
and FieldHasResolvers :: "Field \<Rightarrow> bool" where
  "HasResolvers (ObjectNode fs keys fetch ot) = (\<exists>f\<in>set fs. FieldHasResolvers f)"
| "HasResolvers (FieldNode f) = FieldHasResolvers f"
| "HasResolvers (ListNode keys v flt) = HasResolvers v"
| "HasResolvers (ValueNode keys quoteValue) = False"
| "FieldHasResolvers (Field name v skip hasResolver) = (hasResolver \<or> HasResolvers v)"

subsection \<open>The rendering walk\<close>

text \<open>
  The head of the Object case, up to and including the fetch: the navigation into the
  data along the path of the node, and the fetch. The result is \<open>Some (Inl e)\<close> when the
  path is missing and the case has written \<^verbatim>\<open>null\<close> and returned, \<open>Some (Inr (data, e))\<close>
  when the case goes on with the navigated data, and \<open>None\<close> when the fetch does not
  return.
\<close>

definition objectEnter ::
  "nat \<Rightarrow> 'w extern \<Rightarrow> string list option \<Rightarrow> Fetch option \<Rightarrow> string option \<Rightarrow> string \<Rightarrow> bool \<Rightarrow>
   'w Executor \<Rightarrow> ('w Executor + string option \<times> 'w Executor) option" where
  "objectEnter d env keys fetch data pth shouldFetch e =
     (let (data1, e1) =
            (case (data, keys) of
               (Some bs, Some ks) \<Rightarrow> (let (v, er) = Get env bs ks in (v, e\<lparr>err := er\<rparr>))
             | _ \<Rightarrow> (data, e))
      in if data \<noteq> None \<and> keys \<noteq> None \<and> err e1 = Some KeyPathNotFoundError
         then Some (Inl (writeBytes env (e1\<lparr>err := None\<rparr>) NULL))
         else (case fetch of
                 Some f \<Rightarrow>
                   if shouldFetch
                   then (case doFetch d env (econtext e1) f data1 pth (buffers e1) of
                           None \<Rightarrow> None
                         | Some (instruction, bufs) \<Rightarrow>
                             Some (Inr (data1, e1\<lparr>instructions := instructions e1 @ [instruction],
                                                  buffers := bufs\<rparr>)))
                   else Some (Inr (data1, e1))
               | None \<Rightarrow> Some (Inr (data1, e1))))"

text \<open>
  \<^verbatim>\<open>resolveNode\<close> with a wait group, as the List case starts it in a goroutine for every
  item: the head of the Object case, then \<^verbatim>\<open>prefetch.Done()\<close> and return. Where the node
  returns without calling \<^verbatim>\<open>Done\<close> (an Object whose path is missing, or a node that is not
  an Object), \<^verbatim>\<open>wg.Wait()\<close> in the List case never returns: the result is \<open>None\<close>.

  The statement \<^verbatim>\<open>e.instructions = append(e.instructions, node.Fetch.Fetch(...))\<close> of the
  Object case loads the slice and stores the appended slice, and the goroutines take no
  lock for it: a goroutine stores its instruction after the slice it \<open>loaded\<close>, which is
  the slice as it was before the last \<open>Missed i\<close> stores of the other goroutines.
  \<open>prefetchItems\<close> runs the goroutines of the items, each given with its index, in the
  order of the list it is handed; \<open>stored\<close> holds the earlier values of \<^verbatim>\<open>e.instructions\<close>
  since the goroutines were started, the latest first.
\<close>

definition prefetchNode ::
  "nat \<Rightarrow> 'w extern \<Rightarrow> Node \<Rightarrow> string option \<Rightarrow> string \<Rightarrow> Instruction list \<Rightarrow> 'w Executor \<Rightarrow>
   'w Executor option" where
  "prefetchNode d env node data pth loaded e =
     (case node of
        ObjectNode fs keys fetch ot \<Rightarrow>
          (case objectEnter d env keys fetch data pth True e of
             Some (Inr (data1, e1)) \<Rightarrow>
               Some (case fetch of
                       None \<Rightarrow> e1
                     | Some f \<Rightarrow> e1\<lparr>instructions := loaded @ [last (instructions e1)]\<rparr>)
           | _ \<Rightarrow> None)
      | _ \<Rightarrow> None)"

fun prefetchItems ::
  "nat \<Rightarrow> 'w extern \<Rightarrow> Node \<Rightarrow> (nat \<times> string option) list \<Rightarrow> string \<Rightarrow> Instruction list list \<Rightarrow>
   'w Executor \<Rightarrow> 'w Executor option" where
  "prefetchItems d env node [] pth stored e = Some e"
| "prefetchItems d env node ((i, x) # xs) pth stored e =
     (case prefetchNode d env node x (pth @ dec_nat i)
             ((instructions e # stored) ! min (Missed env i) (length stored)) e of
        None \<Rightarrow> None
      | Some e1 \<Rightarrow> prefetchItems d env node xs pth (instructions e # stored) e1)"

definition writeQuoted :: "'w extern \<Rightarrow> bool \<Rightarrow> 'w Executor \<Rightarrow> string \<Rightarrow> 'w Executor" where
  "writeQuoted env quoteValue e data =
     (let e1 = (if quoteValue then writeBytes env e QUOTE else e);
          e2 = writeBytes env e1 data
      in if quoteValue then writeBytes env e2 QUOTE else e2)"

definition writeFieldName :: "'w extern \<Rightarrow> 'w Executor \<Rightarrow> string \<Rightarrow> 'w Executor" where
  "writeFieldName env e name =
     writeBytes env (writeBytes env (writeBytes env (writeBytes env e QUOTE) name) QUOTE) COLON"


text \<open>
  The head of the List case, up to the rendering loop: \<open>Some (Inl e)\<close> when the data is
  empty and the case has written \<^verbatim>\<open>null\<close> and returned; otherwise the items to render
  (the first \<open>maxItems\<close> list items), \<open>maxItems\<close>, the path prefix and the executor after
  the prefetch, whose goroutines run in the order they complete; \<open>None\<close> when the prefetch
  does not return.
\<close>

definition listEnter ::
  "nat \<Rightarrow> 'w extern \<Rightarrow> string list \<Rightarrow> Node \<Rightarrow> ListFilter option \<Rightarrow> string option \<Rightarrow> string \<Rightarrow>
   'w Executor \<Rightarrow> ('w Executor + string option list \<times> int \<times> string \<times> 'w Executor) option" where
  "listEnter d env keys v flt data pth e =
     (if blen data = 0 then Some (Inl (writeBytes env e NULL))
      else
        (let shouldPrefetch = (case v of ObjectNode fs ks (Some f) ot \<Rightarrow> True | _ \<Rightarrow> False);
             (listItems, er) = ArrayEach env (bstr data) keys;
             e1 = e\<lparr>err := er\<rparr>;
             pth1 = pth @ ''.'';
             maxItems = (case flt of
                           Some (ListFilterFirstN firstN) \<Rightarrow>
                             (if int (length listItems) > firstN then firstN else int (length listItems))
                         | None \<Rightarrow> int (length listItems));
             shown = take (nat maxItems) listItems
         in map_option (\<lambda>e2. Inr (shown, maxItems, pth1, e2))
              (if shouldPrefetch
               then prefetchItems d env v (inCompletionOrder env (zip [0..<length shown] shown)) pth1 [] e1
               else Some e1)))"

text \<open>The end of the List case, after the rendering loop (\<open>i == 0\<close> there is \<open>maxItems \<le> 0\<close>).\<close>

definition listClose :: "'w extern \<Rightarrow> int \<Rightarrow> 'w Executor \<Rightarrow> 'w Executor" where
  "listClose env maxItems e =
     writeBytes env
       (if maxItems \<le> 0 \<or> err e = Some KeyPathNotFoundError
        then writeBytes env (e\<lparr>err := None\<rparr>) LBRACK else e)
       RBRACK"

text \<open>The Value case, which calls no other node.\<close>

definition resolveValue :: "'w extern \<Rightarrow> string list \<Rightarrow> bool \<Rightarrow> string option \<Rightarrow> 'w Executor \<Rightarrow> 'w Executor" where
  "resolveValue env keys quoteValue data e =
     (if bytes_Equal data NULL then writeBytes env e NULL
      else if keys = [] then writeQuoted env quoteValue e (bstr data)
      else (let (v, er) = Get env (bstr data) keys
            in if er = Some KeyPathNotFoundError then writeBytes env (e\<lparr>err := None\<rparr>) NULL
               else writeQuoted env quoteValue (e\<lparr>err := er\<rparr>) (bstr v)))"

text \<open>
  The head of the Field case: \<open>Inl e\<close> when the case has written the name and \<^verbatim>\<open>null\<close> and
  returned, \<open>Inr (data, path, e)\<close> when it descends into the value of the field.
\<close>

definition fieldEnter ::
  "'w extern \<Rightarrow> string \<Rightarrow> bool \<Rightarrow> bool \<Rightarrow> string option \<Rightarrow> string \<Rightarrow> 'w Executor \<Rightarrow>
   'w Executor + string option \<times> string \<times> 'w Executor" where
  "fieldEnter env name hasResolver valueHasResolvers data pth0 e =
     (let pth = pth0 @ ''.'' @ name
      in if hasResolver \<and> buffers e (Sum64 env pth) = None
         then Inl (writeBytes env (writeFieldName env e name) NULL)
         else
           (let data1 = (if hasResolver then buffers e (Sum64 env pth) else data);
                e1 = writeFieldName env e name
            in if blen data1 = 0 \<and> \<not> valueHasResolvers then Inl (writeBytes env e1 NULL)
               else Inr (data1, pth, e1)))"

definition skipped :: "'w extern \<Rightarrow> BooleanCondition option \<Rightarrow> string option \<Rightarrow> 'w Executor \<Rightarrow> bool" where
  "skipped env skip data e =
     (case skip of Some cond \<Rightarrow> Evaluate env (econtext e) data cond | None \<Rightarrow> False)"

text \<open>
  \<^verbatim>\<open>resolveNode\<close> without a wait group (\<^verbatim>\<open>prefetch == nil\<close>). \<open>resolveFields\<close> is the loop of
  the Object case over the fields from index \<open>i\<close> on, \<open>resolveItems\<close> the rendering loop of
  the List case over the items from index \<open>i\<close> on; the call of \<^verbatim>\<open>resolveNode\<close> on a field
  of an Object enters the Field case, \<open>resolveField\<close>. The result is \<open>None\<close> when the walk
  does not return.
\<close>

function (sequential) resolveNode ::
  "nat \<Rightarrow> 'w extern \<Rightarrow> Node \<Rightarrow> string option \<Rightarrow> string \<Rightarrow> bool \<Rightarrow> 'w Executor \<Rightarrow> 'w Executor option"
and resolveField ::
  "nat \<Rightarrow> 'w extern \<Rightarrow> Field \<Rightarrow> string option \<Rightarrow> string \<Rightarrow> 'w Executor \<Rightarrow> 'w Executor option"
and resolveFields ::
  "nat \<Rightarrow> 'w extern \<Rightarrow> Field list \<Rightarrow> nat \<Rightarrow> string option \<Rightarrow> string \<Rightarrow> 'w Executor \<Rightarrow> 'w Executor option"
and resolveItems ::
  "nat \<Rightarrow> 'w extern \<Rightarrow> Node \<Rightarrow> string option list \<Rightarrow> nat \<Rightarrow> string \<Rightarrow> 'w Executor \<Rightarrow> 'w Executor option"
where
  "resolveNode d env (ObjectNode fs keys fetch ot) data pth shouldFetch e =
     Option.bind (objectEnter d env keys fetch data pth shouldFetch e)
       (\<lambda>r. case r of
          Inl e1 \<Rightarrow> Some e1
        | Inr (data1, e1) \<Rightarrow>
            if bytes_Equal data1 NULL then Some (writeBytes env e1 NULL)
            else map_option (\<lambda>e2. writeBytes env e2 RBRACE)
                   (resolveFields d env fs 0 data1 pth (writeBytes env e1 LBRACE)))"
| "resolveNode d env (FieldNode f) data pth shouldFetch e = resolveField d env f data pth e"
| "resolveNode d env (ValueNode keys quoteValue) data pth shouldFetch e =
     Some (resolveValue env keys quoteValue data e)"
| "resolveNode d env (ListNode keys v flt) data pth shouldFetch e =
     Option.bind (listEnter d env keys v flt data pth e)
       (\<lambda>r. case r of
          Inl e1 \<Rightarrow> Some e1
        | Inr (shown, maxItems, pth1, e2) \<Rightarrow>
            map_option (listClose env maxItems) (resolveItems d env v shown 0 pth1 e2))"
| "resolveField d env (Field name v skip hasResolver) data pth0 e =
     (case fieldEnter env name hasResolver (HasResolvers v) data pth0 e of
        Inl e1 \<Rightarrow> Some e1
      | Inr (data1, pth, e1) \<Rightarrow> resolveNode d env v data1 pth True e1)"
| "resolveFields d env [] i data pth e = Some e"
| "resolveFields d env (Field name v skip hasResolver # fs) i data pth e =
     (if skipped env skip data e then resolveFields d env fs (Suc i) data pth e
      else Option.bind
             (resolveField d env (Field name v skip hasResolver) data pth
                (if i \<noteq> 0 then writeBytes env e COMMA else e))
             (resolveFields d env fs (Suc i) data pth))"
| "resolveItems d env v [] i pth e = Some e"
| "resolveItems d env v (x # xs) i pth e =
     Option.bind
       (resolveNode d env v x (pth @ dec_nat i) False
          (writeBytes env e (if i = 0 then LBRACK else COMMA)))
       (resolveItems d env v xs (Suc i) pth)"
  by pat_completeness auto
termination
  apply (relation "inv_image (less_than <*lex*> less_than)
     (\<lambda>x. case x of
         Inl (Inl (d, env, node, data, pth, sf, e)) \<Rightarrow> (size node, 0)
       | Inl (Inr (d, env, f, data, pth, e)) \<Rightarrow> (size f, 0)
       | Inr (Inl (d, env, fs, i, data, pth, e)) \<Rightarrow> (size_list size fs, 0)
       | Inr (Inr (d, env, v, xs, i, pth, e)) \<Rightarrow> (size v, Suc (length xs)))")
   apply (rule wf_inv_image, rule wf_lex_prod, rule wf_less_than, rule wf_less_than)
  apply simp_all
  done

text \<open>
  \<^verbatim>\<open>Execute\<close>. A root node is an \<^verbatim>\<open>*Object\<close>, the only node with an operation type. The
  caller receives the instructions and the error of the executor returned here, and owns
  the sink. The buffers of an earlier execution stay in the executor.
\<close>

fun Execute ::
  "nat \<Rightarrow> 'w extern \<Rightarrow> 'w Executor \<Rightarrow> Context \<Rightarrow> Node \<Rightarrow> 'w \<Rightarrow> 'w Executor option" where
  "Execute d env e ctx (ObjectNode fs keys fetch ot) w =
     resolveNode d env (ObjectNode fs keys fetch ot) None
       (case ot of
          OperationTypeQuery \<Rightarrow> ''query''
        | OperationTypeMutation \<Rightarrow> ''mutation''
        | OperationTypeSubscription \<Rightarrow> ''subscription''
        | OperationTypeUnknown \<Rightarrow> [])
       True
       (e\<lparr>econtext := ctx, out := w, err := None, instructions := []\<rparr>)"

subsection \<open>An execution scenario used to evaluate the executor\<close>

text \<open>
  The sink counts the writes it is asked for and accepts the bytes of each, but for the
  write numbered \<open>failAt\<close>, which it refuses with an error. \<open>stubGet\<close> and
  \<open>stubArrayEach\<close> answer as \<^verbatim>\<open>jsonparser\<close> does on the few documents of the scenario, and
  with \<^verbatim>\<open>KeyPathNotFoundError\<close> elsewhere: \<open>nestedDoc\<close> is \<^verbatim>\<open>{"a":{"b":7}}\<close>, \<open>goodItem\<close> is
  \<^verbatim>\<open>{"x":{}}\<close>, and \<open>badItem\<close> is the malformed \<^verbatim>\<open>{"x":}\<close>, which \<^verbatim>\<open>ArrayEach\<close> hands over as an
  item and on which \<^verbatim>\<open>Get\<close> fails with an error other than \<^verbatim>\<open>KeyPathNotFoundError\<close>; \<open>stubSum64\<close> stands for \<^verbatim>\<open>xxhash\<close> (equal paths
  have equal hashes, which is all the scenario uses); the stand-in for \<^verbatim>\<open>json.Marshal\<close>
  lists the entries; \<open>fasttemplate\<close> follows the library's \<^verbatim>\<open>NewTemplate\<close> and
  \<^verbatim>\<open>ExecuteFuncString\<close>: the text up to the first start tag, the tag up to the first end
  tag after it (an error when there is none), and so on. The goroutines of \<open>stubEnv\<close> run
  in the order they were started, and none of them misses a store of another.
\<close>

definition dq :: string where "dq = [CHR 0x22]"

definition sinkWrite :: "nat option \<Rightarrow> nat \<times> string \<Rightarrow> string \<Rightarrow> (nat \<times> string) \<times> error option" where
  "sinkWrite failAt w data =
     (if failAt = Some (fst w) then ((Suc (fst w), snd w), Some (OtherError ''sink refused the write''))
      else ((Suc (fst w), snd w @ data), None))"

definition nestedDoc :: string where
  "nestedDoc = ''{'' @ dq @ ''a'' @ dq @ '':{'' @ dq @ ''b'' @ dq @ '':7}}''"

definition goodItem :: string where
  "goodItem = ''{'' @ dq @ ''x'' @ dq @ '':{}}''"

definition badItem :: string where
  "badItem = ''{'' @ dq @ ''x'' @ dq @ '':}''"

definition stubGet :: "string \<Rightarrow> string list \<Rightarrow> string option \<times> error option" where
  "stubGet data keys =
     (if keys = [] then (Some data, None)
      else if data = nestedDoc \<and> keys = [''a'', ''b''] then (Some ''7'', None)
      else if data = nestedDoc \<and> keys = [''a''] then (Some (''{'' @ dq @ ''b'' @ dq @ '':7}''), None)
      else if data = goodItem \<and> keys = [''x''] then (Some ''{}'', None)
      else if data = badItem \<and> keys = [''x''] then (None, Some (OtherError ''Unknown value type''))
      else (None, Some KeyPathNotFoundError))"

definition stubArrayEach :: "string \<Rightarrow> string list \<Rightarrow> string option list \<times> error option" where
  "stubArrayEach data keys =
     (if keys = [] \<and> data = ''[]'' then ([], None)
      else if keys = [] \<and> data = ''[1,2]'' then ([Some ''1'', Some ''2''], None)
      else if keys = [] \<and> data = ''['' @ badItem @ '','' @ goodItem @ '']''
      then ([Some badItem, Some goodItem], None)
      else if keys = [] \<and> data = ''['' @ goodItem @ '','' @ goodItem @ '']''
      then ([Some goodItem, Some goodItem], None)
      else ([], Some KeyPathNotFoundError))"

definition stubSum64 :: "string \<Rightarrow> 64 word" where
  "stubSum64 s = foldl (\<lambda>h c. h * 31 + of_nat (of_char c)) 7 s"

fun splitAt :: "string \<Rightarrow> string \<Rightarrow> (string \<times> string) option" where
  "splitAt sep [] = None"
| "splitAt sep (c # cs) =
     (if prefix sep (c # cs) then Some ([], drop (length sep) (c # cs))
      else map_option (\<lambda>(a, b). (c # a, b)) (splitAt sep cs))"

function fasttemplate :: "string \<Rightarrow> (string \<Rightarrow> string) \<Rightarrow> string option" where
  "fasttemplate s f =
     (case splitAt ''{{'' s of
        None \<Rightarrow> Some s
      | Some (txt, rest) \<Rightarrow>
          (case splitAt ''}}'' rest of
             None \<Rightarrow> None
           | Some (tag, rest') \<Rightarrow> map_option (\<lambda>r. txt @ f tag @ r) (fasttemplate rest' f)))"
  by pat_completeness auto
termination
proof (relation "measure (\<lambda>(s, f). length s)")
  show "wf (measure (\<lambda>(s, f). length s))" by simp
next
  fix s :: string and f :: "string \<Rightarrow> string" and x2 x y x2a xa ya
  assume a: "splitAt ''{{'' s = Some x2" "(x, y) = x2" "splitAt ''}}'' y = Some x2a" "(xa, ya) = x2a"
  have len: "splitAt sep t = Some (u, v) \<Longrightarrow> length v + length sep \<le> length t" for sep t u v
  proof (induction t arbitrary: u)
    case Nil
    then show ?case by simp
  next
    case (Cons c cs)
    show ?case
    proof (cases "prefix sep (c # cs)")
      case True
      with Cons.prems have "v = drop (length sep) (c # cs)" by simp
      moreover from True have "length sep \<le> length (c # cs)" by (rule prefix_length_le)
      ultimately show ?thesis by simp
    next
      case False
      with Cons.prems obtain u' where "splitAt sep cs = Some (u', v)" by auto
      from Cons.IH[OF this] show ?thesis by simp
    qed
  qed
  from a have "length y + 2 \<le> length s" "length ya + 2 \<le> length y"
    using len[of "''{{''" s x y] len[of "''}}''" y xa ya] by auto
  then show "((ya, f), s, f) \<in> measure (\<lambda>(s, f). length s)" by simp
qed

declare fasttemplate.simps [simp del]

definition stubEnv :: "nat option \<Rightarrow> (nat \<times> string) extern" where
  "stubEnv failAt =
     \<lparr>Write = sinkWrite failAt, Get = stubGet, ArrayEach = stubArrayEach, Sum64 = stubSum64,
      Marshal = (\<lambda>entries. concat (map (\<lambda>(k, v). k @ ''='' @ v @ '';'') entries)),
      ExecuteTemplate = fasttemplate,
      Schedule = (\<lambda>n. [0..<n]), Missed = (\<lambda>i. 0)\<rparr>"

definition emptyContext :: Context where
  "emptyContext = \<lparr>Variables = Map.empty, ExtraArguments = []\<rparr>"

definition newExecutor :: "(nat \<times> string) Executor" where
  "newExecutor = \<lparr>econtext = emptyContext, out = (0, []), err = None, buffers = Map.empty, instructions = []\<rparr>"

definition constSource :: "string \<Rightarrow> Instruction \<Rightarrow> DataSourceInvocation" where
  "constSource body ins = \<lparr>Args = [], Resolve = (\<lambda>ctx args. (body, ins))\<rparr>"

text \<open>What the caller of \<^verbatim>\<open>Execute\<close> sees: the bytes in the sink, the error, the instructions.\<close>

definition showE :: "(nat \<times> string) Executor option \<Rightarrow> (string \<times> error option \<times> Instruction list) option" where
  "showE = map_option (\<lambda>e. (snd (out e), err e, instructions e))"

text \<open>
  Two plans of the scenario. In both, the fetch of the root Object fills the buffer of
  its field \<open>a\<close>. In \<open>listPlan\<close> the field is a list of plain values; in \<open>objectListPlan\<close>
  it is a list of Objects with the path \<open>x\<close> and a fetch of their own, which the List case
  prefetches in one goroutine for every item.
\<close>

definition listPlan :: "Fetch \<Rightarrow> Node" where
  "listPlan f =
     ObjectNode [Field ''a'' (ListNode [] (ValueNode [] False) None) None True] None (Some f)
       OperationTypeQuery"

definition objectListPlan :: "Fetch \<Rightarrow> Fetch \<Rightarrow> Node" where
  "objectListPlan f g =
     ObjectNode
       [Field ''a'' (ListNode [] (ObjectNode [] (Some [''x'']) (Some g) OperationTypeUnknown) None) None True]
       None (Some f) OperationTypeQuery"

section \<open>Properties of the planner\<close>

subsection \<open>Decimal rendering is injective\<close>

lemma digit_char_inj: "a < 10 \<Longrightarrow> b < 10 \<Longrightarrow> digit_char a = digit_char b \<Longrightarrow> a = b"
proof -
  assume a: "a < 10" and b: "b < 10" and e: "digit_char a = digit_char b"
  have d: "distinct ''0123456789''" by simp
  have l: "length ''0123456789'' = 10" by simp
  from e have "''0123456789'' ! a = ''0123456789'' ! b" by (simp only: digit_char_def)
  with d a b l show "a = b" by (metis nth_eq_iff_index_eq)
qed

lemma digit_char_not_special: "d < 10 \<Longrightarrow> digit_char d \<noteq> CHR ''-'' \<and> digit_char d \<noteq> CHR ''.''"
proof -
  assume "d < 10"
  then have "d \<in> {0,1,2,3,4,5,6,7,8,9}" by auto
  then show ?thesis unfolding digit_char_def by auto
qed

lemma dec_nat_nonempty: "dec_nat n \<noteq> []"
  by (subst dec_nat.simps) simp

lemma dec_nat_length_ge2: "10 \<le> n \<Longrightarrow> 2 \<le> length (dec_nat n)"
  using dec_nat_nonempty[of "n div 10"] by (subst dec_nat.simps) (cases "dec_nat (n div 10)"; simp)

lemma dec_nat_inj: "dec_nat n = dec_nat m \<Longrightarrow> n = m"
proof (induction n arbitrary: m rule: dec_nat.induct)
  case (1 n)
  show ?case
  proof (cases "n < 10")
    case True
    then have ln: "length (dec_nat n) = 1" by (subst dec_nat.simps) simp
    have "m < 10" using dec_nat_length_ge2[of m] ln "1.prems" by (cases "m < 10") auto
    with True "1.prems" show ?thesis
      by (subst (asm) dec_nat.simps, subst (asm) (2) dec_nat.simps) (simp add: digit_char_inj)
  next
    case False
    have "\<not> m < 10"
    proof
      assume "m < 10"
      then have "length (dec_nat m) = 1" by (subst dec_nat.simps) simp
      with dec_nat_length_ge2[of n] False "1.prems" show False by simp
    qed
    with False "1.prems" have e: "dec_nat (n div 10) @ [digit_char (n mod 10)] = dec_nat (m div 10) @ [digit_char (m mod 10)]"
      by (subst (asm) dec_nat.simps, subst (asm) (2) dec_nat.simps) simp
    then have "dec_nat (n div 10) = dec_nat (m div 10)" and "digit_char (n mod 10) = digit_char (m mod 10)" by auto
    with "1.IH"[OF False] have "n div 10 = m div 10" and "n mod 10 = m mod 10"
      by (auto intro: digit_char_inj)
    then show ?thesis by (metis div_mult_mod_eq)
  qed
qed

lemma dec_nat_chars: "c \<in> set (dec_nat n) \<Longrightarrow> c \<noteq> CHR ''-'' \<and> c \<noteq> CHR ''.''"
proof (induction n rule: dec_nat.induct)
  case (1 n)
  show ?case
  proof (cases "n < 10")
    case True
    with "1.prems" show ?thesis by (subst (asm) dec_nat.simps) (simp add: digit_char_not_special)
  next
    case False
    with "1.prems" have "c \<in> set (dec_nat (n div 10)) \<or> c = digit_char (n mod 10)"
      by (subst (asm) dec_nat.simps) auto
    with "1.IH"[OF False] show ?thesis using digit_char_not_special[of "n mod 10"] by auto
  qed
qed

lemma dec_int_inj: "dec_int i = dec_int j \<Longrightarrow> i = j"
proof -
  assume e: "dec_int i = dec_int j"
  have hdn: "hd (dec_nat k) \<noteq> CHR ''-''" for k
    using dec_nat_chars[of "hd (dec_nat k)" k] dec_nat_nonempty[of k] by auto
  show ?thesis
  proof (cases "i < 0"; cases "j < 0")
    assume "i < 0" "j < 0"
    with e have "nat (- i) = nat (- j)" by (auto simp: dec_int_def dest: dec_nat_inj)
    with \<open>i < 0\<close> \<open>j < 0\<close> show ?thesis by simp
  next
    assume "i < 0" "\<not> j < 0"
    with e have "CHR ''-'' # dec_nat (nat (- i)) = dec_nat (nat j)" by (simp add: dec_int_def)
    then have "hd (dec_nat (nat j)) = CHR ''-''" by (metis list.sel(1))
    with hdn show ?thesis by simp
  next
    assume "\<not> i < 0" "j < 0"
    with e have "CHR ''-'' # dec_nat (nat (- j)) = dec_nat (nat i)" by (simp add: dec_int_def)
    then have "hd (dec_nat (nat i)) = CHR ''-''" by (metis list.sel(1))
    with hdn show ?thesis by simp
  next
    assume "\<not> i < 0" "\<not> j < 0"
    with e have "nat i = nat j" by (auto simp: dec_int_def dest: dec_nat_inj)
    with \<open>\<not> i < 0\<close> \<open>\<not> j < 0\<close> show ?thesis by simp
  qed
qed

lemma fieldKey_inj: "fieldKey x h = fieldKey y h \<Longrightarrow> x = y"
  by (simp add: fieldKey_def dec_int_inj)

subsection \<open>The dependency loops\<close>

lemma addKeyDependency_deps:
  "fieldDependsOn (addKeyDependency h req cfg a c) k =
     (if a \<notin> set req \<and> k = fieldKey a h then Some (lookupSlice (fieldDependsOn c) k @ req)
      else fieldDependsOn c k)"
  by (simp add: addKeyDependency_def Let_def)

lemma addKeyDependency_frame:
  "fieldLandedTo (addKeyDependency h req cfg a c) = fieldLandedTo c"
  "operation (addKeyDependency h req cfg a c) = operation c"
  "internalErrs (addKeyDependency h req cfg a c) = internalErrs c"
  by (simp_all add: addKeyDependency_def Let_def)

lemma addFieldDependency_deps:
  "fieldDependsOn (addFieldDependency h req a c) k =
     (if k = fieldKey a h then Some (lookupSlice (fieldDependsOn c) k @ req) else fieldDependsOn c k)"
  by (simp add: addFieldDependency_def Let_def)

lemma addFieldDependency_frame:
  "fieldLandedTo (addFieldDependency h req a c) = fieldLandedTo c"
  "operation (addFieldDependency h req a c) = operation c"
  "internalErrs (addFieldDependency h req a c) = internalErrs c"
  by (simp_all add: addFieldDependency_def Let_def)

lemma recordLandedTo_frame:
  "fieldLandedTo (recordLandedTo H a c) ref = (if ref = a then Some H else fieldLandedTo c ref)"
  "fieldDependsOn (recordLandedTo H a c) = fieldDependsOn c"
  "operation (recordLandedTo H a c) = operation c"
  "internalErrs (recordLandedTo H a c) = internalErrs c"
  by (simp_all add: recordLandedTo_def)

lemma fold_addKeyDependency_other:
  "\<forall>x\<in>set xs. fieldKey x h \<noteq> k \<Longrightarrow>
   fieldDependsOn (fold (addKeyDependency h req cfg) xs c) k = fieldDependsOn c k"
  by (induction xs arbitrary: c) (auto simp: addKeyDependency_deps)

lemma fold_addKeyDependency_frame:
  "fieldLandedTo (fold (addKeyDependency h req cfg) xs c) = fieldLandedTo c"
  "operation (fold (addKeyDependency h req cfg) xs c) = operation c"
  "internalErrs (fold (addKeyDependency h req cfg) xs c) = internalErrs c"
  by (induction xs arbitrary: c) (simp_all add: addKeyDependency_frame)

lemma fold_addKeyDependency_member:
  "distinct xs \<Longrightarrow> x \<in> set xs \<Longrightarrow>
   fieldDependsOn (fold (addKeyDependency h req cfg) xs c) (fieldKey x h) =
     (if x \<in> set req then fieldDependsOn c (fieldKey x h)
      else Some (lookupSlice (fieldDependsOn c) (fieldKey x h) @ req))"
proof (induction xs arbitrary: c)
  case Nil
  then show ?case by simp
next
  case (Cons a xs)
  show ?case
  proof (cases "x = a")
    case True
    with Cons.prems have "\<forall>y\<in>set xs. fieldKey y h \<noteq> fieldKey x h"
      by (auto dest: fieldKey_inj)
    then have "fieldDependsOn (fold (addKeyDependency h req cfg) xs (addKeyDependency h req cfg a c)) (fieldKey x h)
       = fieldDependsOn (addKeyDependency h req cfg a c) (fieldKey x h)"
      by (rule fold_addKeyDependency_other)
    with True show ?thesis
      by (simp add: addKeyDependency_deps)
  next
    case False
    then have k: "fieldKey x h \<noteq> fieldKey a h"
      by (auto dest: fieldKey_inj)
    from False Cons.prems have "x \<in> set xs" "distinct xs" by auto
    from Cons.IH[OF this(2,1), of "addKeyDependency h req cfg a c"] k show ?thesis
      by (simp add: addKeyDependency_deps lookupSlice_def)
  qed
qed

lemma fold_recordLandedTo:
  "fieldLandedTo (fold (recordLandedTo H) refs c) ref =
     (if ref \<in> set refs then Some H else fieldLandedTo c ref)"
  by (induction refs arbitrary: c) (simp_all add: recordLandedTo_frame)

lemma fold_recordLandedTo_frame:
  "fieldDependsOn (fold (recordLandedTo H) refs c) = fieldDependsOn c"
  "operation (fold (recordLandedTo H) refs c) = operation c"
  "internalErrs (fold (recordLandedTo H) refs c) = internalErrs c"
  by (induction refs arbitrary: c) (simp_all add: recordLandedTo_frame)

lemma fold_addFieldDependency_other:
  "\<forall>x\<in>set xs. fieldKey x h \<noteq> k \<Longrightarrow>
   fieldDependsOn (fold (addFieldDependency h req) xs c) k = fieldDependsOn c k"
  by (induction xs arbitrary: c) (auto simp: addFieldDependency_deps)

lemma fold_addFieldDependency_frame:
  "fieldLandedTo (fold (addFieldDependency h req) xs c) = fieldLandedTo c"
  "operation (fold (addFieldDependency h req) xs c) = operation c"
  "internalErrs (fold (addFieldDependency h req) xs c) = internalErrs c"
  by (induction xs arbitrary: c) (simp_all add: addFieldDependency_frame)

lemma fold_addFieldDependency_member:
  "distinct xs \<Longrightarrow> x \<in> set xs \<Longrightarrow>
   fieldDependsOn (fold (addFieldDependency h req) xs c) (fieldKey x h) =
     Some (lookupSlice (fieldDependsOn c) (fieldKey x h) @ req)"
proof (induction xs arbitrary: c)
  case Nil
  then show ?case by simp
next
  case (Cons a xs)
  show ?case
  proof (cases "x = a")
    case True
    with Cons.prems have "\<forall>y\<in>set xs. fieldKey y h \<noteq> fieldKey x h"
      by (auto dest: fieldKey_inj)
    then have "fieldDependsOn (fold (addFieldDependency h req) xs (addFieldDependency h req a c)) (fieldKey x h)
       = fieldDependsOn (addFieldDependency h req a c) (fieldKey x h)"
      by (rule fold_addFieldDependency_other)
    with True show ?thesis
      by (simp add: addFieldDependency_deps)
  next
    case False
    then have k: "fieldKey x h \<noteq> fieldKey a h"
      by (auto dest: fieldKey_inj)
    from False Cons.prems have "x \<in> set xs" "distinct xs" by auto
    from Cons.IH[OF this(2,1), of "addFieldDependency h req a c"] k show ?thesis
      by (simp add: addFieldDependency_deps lookupSlice_def)
  qed
qed

subsection \<open>The rounds of key matching\<close>

lemma fst_matchRound_Nil:
  "fst (matchRound env ss a p c) = [] \<Longrightarrow> fst (snd (matchRound env ss a p c)) = p"
proof (induction p arbitrary: c)
  case Nil
  then show ?case by simp
next
  case (Cons r rs)
  obtain m c1 where a: "matchDataSourcesByKeyConfiguration env ss r a c = (m, c1)"
    by (cases "matchDataSourcesByKeyConfiguration env ss r a c") auto
  obtain na np c2 where b: "matchRound env ss a rs c1 = (na, np, c2)"
    by (cases "matchRound env ss a rs c1") auto
  from Cons.prems a b have "\<not> m" "na = []" by (auto split: if_splits)
  with Cons.IH[of c1] b have "np = rs" by simp
  with a b \<open>\<not> m\<close> show ?case by simp
qed

lemma matchDataSources_no_hashes: "matchDataSources env ss r [] ds c = (False, c)"
  by (induction ds) auto

lemma matchRound_no_hashes: "matchRound env ss [] ps c = ([], ps, c)"
  by (induction ps arbitrary: c) (auto simp: matchDataSourcesByKeyConfiguration_def matchDataSources_no_hashes)

lemma pendingRounds_Some_not_stuck:
  "pendingRounds env ss a p c = Some y \<Longrightarrow> \<not> (a = [] \<and> p \<noteq> [])"
proof (induction rule: pendingRounds.raw_induct[rotated 1, consumes 1])
  case (1 f env ss a p c y)
  show ?case
  proof
    assume st: "a = [] \<and> p \<noteq> []"
    with 1(2) have "f env ss [] p c = Some y"
      by (simp add: matchRound_no_hashes)
    from 1(1)[OF this] st show False by simp
  qed
qed

lemma pendingRounds_stuck: "p \<noteq> [] \<Longrightarrow> pendingRounds env ss [] p c = None"
  using pendingRounds_Some_not_stuck[of env ss "[]" p c] by (cases "pendingRounds env ss [] p c") auto

lemma pendingRounds_round_without_match:
  assumes "p \<noteq> []" and "fst (matchRound env ss a p c) = []"
  shows "pendingRounds env ss a p c = None"
proof -
  obtain na np c' where m: "matchRound env ss a p c = (na, np, c')"
    by (cases "matchRound env ss a p c") auto
  with assms(2) fst_matchRound_Nil[of env ss a p c] have "na = []" "np = p" by auto
  with m assms(1) have "pendingRounds env ss a p c = pendingRounds env ss [] p c'"
    by (subst pendingRounds.simps) simp
  with assms(1) show ?thesis by (simp add: pendingRounds_stuck)
qed


text \<open>
  Claim C1 (processing the pending key requirements of a selection set terminates, and a
  key requirement left unmatched is reported as a planner error): evaluated on the code.
  In the scenario, data source 2 asks for the key \<open>id\<close> of \<open>User\<close>, which the parent data
  source 1 does not have. No round matches the requirement, the set of available hashes
  becomes empty, and \<^verbatim>\<open>processPendingKeyRequirements\<close> never returns (\<open>None\<close>); no error is
  recorded on the way. For a field of data source 3, which has no key configuration for
  \<open>User\<close>, \<^verbatim>\<open>handleFieldsRequiredByKey\<close> returns with no error and no pending requirement:
  the requirement is dropped.
\<close>

theorem unmatched_key_requirement_never_reported:
  "processPendingKeyRequirements planEnv 7
     (addPendingKeyRequirements 4 2 [userCfg ''id''] False ''query.user'' [1] planStart) = None \<and>
   (\<exists>c. handleFieldsRequiredByKey 4 ''query.user'' ''User'' ''name'' ''query.user.name''
           (subgraph 3 [] False) planStart = Inr c \<and>
        internalErrs c = [] \<and> pendingKeyRequirements c 7 = None \<and> \<not> hasNewFields c)"
proof
  show "processPendingKeyRequirements planEnv 7
     (addPendingKeyRequirements 4 2 [userCfg ''id''] False ''query.user'' [1] planStart) = None"
    apply (simp add: processPendingKeyRequirements_def addPendingKeyRequirements_def currentSelectionSet_def Let_def planStart_def)
    apply (rule pendingRounds_round_without_match)
     apply simp
    apply (simp add: matchDataSourcesByKeyConfiguration_def subgraph_def userCfg_def)
    done
  show "\<exists>c. handleFieldsRequiredByKey 4 ''query.user'' ''User'' ''name'' ''query.user.name''
           (subgraph 3 [] False) planStart = Inr c \<and>
        internalErrs c = [] \<and> pendingKeyRequirements c 7 = None \<and> \<not> hasNewFields c"
    by (simp add: handleFieldsRequiredByKey_def planStart_def subgraph_def Let_def typeNameField_def)
qed

subsection \<open>Dependencies recorded when requirements are flushed\<close>

text \<open>
  Claim C3, as the code has it. When \<^verbatim>\<open>addKeyRequirementsToOperation\<close> injects a key
  without error, every requesting field ref that is not itself among the injected refs
  gets all the injected refs appended to its \<^verbatim>\<open>fieldDependsOn\<close> entry, a requesting field
  ref that is among the injected refs gets nothing appended, and \<^verbatim>\<open>fieldLandedTo\<close> maps
  every injected ref to the hash of the data source the key landed on. When
  \<^verbatim>\<open>addFieldRequirementsToOperation\<close> injects the fields of a \<^verbatim>\<open>@requires\<close> without error,
  every requesting field ref gets all the injected refs appended, with no exclusion, and
  \<^verbatim>\<open>fieldLandedTo\<close> is left as it was. The requesting field refs are distinct, as the
  functions collecting them keep them.
\<close>

theorem flushed_requirements_dependencies:
  "(parses env typeName (SelectionSet cfg) \<and>
    refsOf env (operation c)
      \<lparr>onType = typeName,
       withTypename = (\<not> (isInterfaceObject r \<and> HasInterfaceObject landedTo typeName)),
       fragmentFields = SelectionSet cfg\<rparr> ss = (skip, req, False) \<and>
    distinct (requestedByFieldRefs r) \<longrightarrow>
      (\<forall>x\<in>set (requestedByFieldRefs r).
         fieldDependsOn (addKeyRequirementsToOperation env ss typeName r landedTo cfg c) (fieldKey x (dsHash r)) =
           (if x \<in> set req then fieldDependsOn c (fieldKey x (dsHash r))
            else Some (lookupSlice (fieldDependsOn c) (fieldKey x (dsHash r)) @ req))) \<and>
      (\<forall>ref. fieldLandedTo (addKeyRequirementsToOperation env ss typeName r landedTo cfg c) ref =
           (if ref \<in> set req then Some (Hash landedTo) else fieldLandedTo c ref))) \<and>
   (parses env (enclosingTypeName c) (selectionSet fr) \<and>
    refsOf env (operation c)
      \<lparr>onType = enclosingTypeName c, withTypename = False, fragmentFields = selectionSet fr\<rparr> ss =
        (skip', req', False) \<and>
    distinct (fr_requestedByFieldRefs fr) \<longrightarrow>
      (\<forall>x\<in>set (fr_requestedByFieldRefs fr).
         fieldDependsOn (addFieldRequirementsToOperation env ss fr c) (fieldKey x (fr_dsHash fr)) =
           Some (lookupSlice (fieldDependsOn c) (fieldKey x (fr_dsHash fr)) @ req')) \<and>
      fieldLandedTo (addFieldRequirementsToOperation env ss fr c) = fieldLandedTo c)"
proof (intro conjI impI ballI allI)
  fix x
  assume a: "parses env typeName (SelectionSet cfg) \<and>
    refsOf env (operation c)
      \<lparr>onType = typeName,
       withTypename = (\<not> (isInterfaceObject r \<and> HasInterfaceObject landedTo typeName)),
       fragmentFields = SelectionSet cfg\<rparr> ss = (skip, req, False) \<and>
    distinct (requestedByFieldRefs r)" and x: "x \<in> set (requestedByFieldRefs r)"
  then show "fieldDependsOn (addKeyRequirementsToOperation env ss typeName r landedTo cfg c) (fieldKey x (dsHash r)) =
           (if x \<in> set req then fieldDependsOn c (fieldKey x (dsHash r))
            else Some (lookupSlice (fieldDependsOn c) (fieldKey x (dsHash r)) @ req))"
    by (simp add: addKeyRequirementsToOperation_def RequiredFieldsFragment_def addRequiredFields_def
          Let_def fold_recordLandedTo_frame fold_addKeyDependency_member)
next
  fix ref
  assume a: "parses env typeName (SelectionSet cfg) \<and>
    refsOf env (operation c)
      \<lparr>onType = typeName,
       withTypename = (\<not> (isInterfaceObject r \<and> HasInterfaceObject landedTo typeName)),
       fragmentFields = SelectionSet cfg\<rparr> ss = (skip, req, False) \<and>
    distinct (requestedByFieldRefs r)"
  then show "fieldLandedTo (addKeyRequirementsToOperation env ss typeName r landedTo cfg c) ref =
           (if ref \<in> set req then Some (Hash landedTo) else fieldLandedTo c ref)"
    by (simp add: addKeyRequirementsToOperation_def RequiredFieldsFragment_def addRequiredFields_def
          Let_def fold_recordLandedTo fold_addKeyDependency_frame)
next
  fix x
  assume a: "parses env (enclosingTypeName c) (selectionSet fr) \<and>
    refsOf env (operation c)
      \<lparr>onType = enclosingTypeName c, withTypename = False, fragmentFields = selectionSet fr\<rparr> ss =
        (skip', req', False) \<and>
    distinct (fr_requestedByFieldRefs fr)" and x: "x \<in> set (fr_requestedByFieldRefs fr)"
  then show "fieldDependsOn (addFieldRequirementsToOperation env ss fr c) (fieldKey x (fr_dsHash fr)) =
           Some (lookupSlice (fieldDependsOn c) (fieldKey x (fr_dsHash fr)) @ req')"
    by (simp add: addFieldRequirementsToOperation_def RequiredFieldsFragment_def addRequiredFields_def
          Let_def fold_addFieldDependency_member)
next
  assume a: "parses env (enclosingTypeName c) (selectionSet fr) \<and>
    refsOf env (operation c)
      \<lparr>onType = enclosingTypeName c, withTypename = False, fragmentFields = selectionSet fr\<rparr> ss =
        (skip', req', False) \<and>
    distinct (fr_requestedByFieldRefs fr)"
  then show "fieldLandedTo (addFieldRequirementsToOperation env ss fr c) = fieldLandedTo c"
    by (simp add: addFieldRequirementsToOperation_def RequiredFieldsFragment_def addRequiredFields_def
          Let_def fold_addFieldDependency_frame)
qed

text \<open>An instance: the refs 4 and 5 request, the refs 5 and 7 are injected.\<close>

theorem flushed_requirements_dependencies_witness:
  "(let r = \<lparr>dsHash = 2, path = ''query.user'', isInterfaceObject = False,
             possibleKeys = [userCfg ''email''], requestedByFieldRefs = [4, 5]\<rparr>;
        c' = addKeyRequirementsToOperation planEnv 7 ''User'' r (subgraph 1 [''email''] False)
               (userCfg ''email'') planStart
    in parses planEnv ''User'' ''email'' \<and> distinct (requestedByFieldRefs r) \<and>
       fieldDependsOn c' (fieldKey 4 2) = Some [5, 7] \<and>
       fieldDependsOn c' (fieldKey 5 2) = None \<and>
       fieldLandedTo c' 5 = Some 1 \<and> fieldLandedTo c' 7 = Some 1 \<and> fieldLandedTo c' 4 = None) \<and>
   (let fr = \<lparr>fr_dsHash = 2, fr_path = ''query.user.name'', selectionSet = ''id'',
              fr_requestedByFieldRefs = [4, 5]\<rparr>;
        c' = addFieldRequirementsToOperation planEnv 7 fr planStart
    in distinct (fr_requestedByFieldRefs fr) \<and>
       fieldDependsOn c' (fieldKey 4 2) = Some [5, 7] \<and>
       fieldDependsOn c' (fieldKey 5 2) = Some [5, 7] \<and>
       fieldLandedTo c' = Map.empty)"
  using flushed_requirements_dependencies
    [of planEnv "''User''" "userCfg ''email''" planStart
        "\<lparr>dsHash = 2, path = ''query.user'', isInterfaceObject = False,
          possibleKeys = [userCfg ''email''], requestedByFieldRefs = [4, 5]\<rparr>"
        "subgraph 1 [''email''] False" 7 "[5, 7]" "[5, 7]"
        "\<lparr>fr_dsHash = 2, fr_path = ''query.user.name'', selectionSet = ''id'',
          fr_requestedByFieldRefs = [4, 5]\<rparr>" "[5, 7]" "[5, 7]"]
  by (simp add: planEnv_def planStart_def userCfg_def subgraph_def lookupSlice_def Let_def)

text \<open>
  The claim as the spec words it fails: the requesting field ref 5 is among the injected
  refs 5 and 7 of a key, and does not receive the other injected ref 7; and flushing a
  field requirement records no \<^verbatim>\<open>fieldLandedTo\<close> for the injected ref 7.
\<close>

theorem flushed_requirements_counterexample:
  "fieldDependsOn
     (addKeyRequirementsToOperation planEnv 7 ''User''
        \<lparr>dsHash = 2, path = ''query.user'', isInterfaceObject = False,
          possibleKeys = [userCfg ''email''], requestedByFieldRefs = [4, 5]\<rparr>
        (subgraph 1 [''email''] False) (userCfg ''email'') planStart) (fieldKey 5 2) \<noteq> Some [7] \<and>
   fieldLandedTo
     (addFieldRequirementsToOperation planEnv 7
        \<lparr>fr_dsHash = 2, fr_path = ''query.user.name'', selectionSet = ''id'',
          fr_requestedByFieldRefs = [4, 5]\<rparr> planStart) 7 = None"
  by code_simp

subsection \<open>The interface-object jump rule\<close>

lemma StopWithInternalErr_operation: "operation (StopWithInternalErr msg c) = operation c"
  by (simp add: StopWithInternalErr_def)

text \<open>
  Claim C9: when \<^verbatim>\<open>addKeyRequirementsToOperation\<close> injects a key (its selection set
  parses), the fragment it injects into the selection set omits \<^verbatim>\<open>__typename\<close> if and
  only if the requirement comes from an interface object and the data source the key
  lands on has the type as an interface object; otherwise the fragment includes
  \<^verbatim>\<open>__typename\<close>.
\<close>

theorem injected_key_typename:
  assumes "parses env typeName (SelectionSet cfg)"
  shows "operation (addKeyRequirementsToOperation env ss typeName r landedTo cfg c) =
           operation c @
             [(ss, \<lparr>onType = typeName,
                    withTypename = (\<not> (isInterfaceObject r \<and> HasInterfaceObject landedTo typeName)),
                    fragmentFields = SelectionSet cfg\<rparr>)] \<and>
         (\<not> withTypename (snd (last (operation
               (addKeyRequirementsToOperation env ss typeName r landedTo cfg c))))) =
           (isInterfaceObject r \<and> HasInterfaceObject landedTo typeName)"
proof -
  obtain skip req addErr where
    refs: "refsOf env (operation c)
             \<lparr>onType = typeName,
              withTypename = (\<not> (isInterfaceObject r \<and> HasInterfaceObject landedTo typeName)),
              fragmentFields = SelectionSet cfg\<rparr> ss = (skip, req, addErr)"
    using prod_cases3 by blast
  from assms refs
  have "operation (addKeyRequirementsToOperation env ss typeName r landedTo cfg c) =
           operation c @
             [(ss, \<lparr>onType = typeName,
                    withTypename = (\<not> (isInterfaceObject r \<and> HasInterfaceObject landedTo typeName)),
                    fragmentFields = SelectionSet cfg\<rparr>)]"
    by (simp add: addKeyRequirementsToOperation_def RequiredFieldsFragment_def addRequiredFields_def
          Let_def StopWithInternalErr_operation fold_recordLandedTo_frame fold_addKeyDependency_frame)
  then show ?thesis by simp
qed

text \<open>
  Two instances: a jump from an interface object to an interface object, and a jump from
  an interface object to a data source that has the concrete type.
\<close>

theorem injected_key_typename_witness:
  "parses planEnv ''User'' ''email'' \<and>
   operation (addKeyRequirementsToOperation planEnv 7 ''User''
      \<lparr>dsHash = 2, path = ''query.user'', isInterfaceObject = True,
        possibleKeys = [userCfg ''email''], requestedByFieldRefs = [4]\<rparr>
      (subgraph 1 [''email''] True) (userCfg ''email'') planStart) =
     [(7, \<lparr>onType = ''User'', withTypename = False, fragmentFields = ''email''\<rparr>)] \<and>
   operation (addKeyRequirementsToOperation planEnv 7 ''User''
      \<lparr>dsHash = 2, path = ''query.user'', isInterfaceObject = True,
        possibleKeys = [userCfg ''email''], requestedByFieldRefs = [4]\<rparr>
      (subgraph 1 [''email''] False) (userCfg ''email'') planStart) =
     [(7, \<lparr>onType = ''User'', withTypename = True, fragmentFields = ''email''\<rparr>)]"
  using injected_key_typename
    [of planEnv "''User''" "userCfg ''email''" 7
        "\<lparr>dsHash = 2, path = ''query.user'', isInterfaceObject = True,
          possibleKeys = [userCfg ''email''], requestedByFieldRefs = [4]\<rparr>"
        "subgraph 1 [''email''] True" planStart]
    injected_key_typename
    [of planEnv "''User''" "userCfg ''email''" 7
        "\<lparr>dsHash = 2, path = ''query.user'', isInterfaceObject = True,
          possibleKeys = [userCfg ''email''], requestedByFieldRefs = [4]\<rparr>"
        "subgraph 1 [''email''] False" planStart]
  by (simp add: planEnv_def planStart_def userCfg_def subgraph_def)

subsection \<open>Deduplication of pending requirements\<close>

text \<open>
  Claim C8 (a duplicate is merged into the existing requirement): evaluated on the code.
  Three \<^verbatim>\<open>@requires\<close> of the same selection set \<open>id\<close> arrive in selection set 7: field 10
  for data source 1, field 20 for data source 2, field 30 for data source 2 again. The
  third is a duplicate of the second; the merge loop of \<^verbatim>\<open>addPendingFieldRequirements\<close>
  compares the selection set only and adds field 30 to the requirement of data source 1.
\<close>

theorem duplicate_field_requirement_merged_elsewhere:
  "map (\<lambda>r. (fr_dsHash r, selectionSet r, fr_requestedByFieldRefs r))
     (fr_requirementConfigs (the (pendingFieldRequirements
        (addPendingFieldRequirements 30 2 (userCfg ''id'') ''query.user.c''
          (addPendingFieldRequirements 20 2 (userCfg ''id'') ''query.user.b''
            (addPendingFieldRequirements 10 1 (userCfg ''id'') ''query.user.a'' planStart))) 7))) =
   [(1, ''id'', [10, 30]), (2, ''id'', [20])]"
  by code_simp

section \<open>Properties of the executor\<close>

subsection \<open>The order of goroutines\<close>

lemma completionOrder_permutation:
  "distinct (completionOrder env n) \<and> set (completionOrder env n) = {0..<n}"
  by (auto simp: completionOrder_def Let_def)

lemma inCompletionOrder_Nil [simp]: "inCompletionOrder env [] = []"
  by (simp add: inCompletionOrder_def completionOrder_def)

lemma inCompletionOrder_started [simp]:
  "Schedule env (length xs) = [0..<length xs] \<Longrightarrow> inCompletionOrder env xs = xs"
proof -
  assume a: "Schedule env (length xs) = [0..<length xs]"
  have "filter (\<lambda>i. i < length xs) [0..<length xs] = [0..<length xs]"
    by (rule filter_True) simp
  with a have "completionOrder env (length xs) = [0..<length xs]"
    by (simp add: completionOrder_def Let_def)
  then show ?thesis
    by (simp add: inCompletionOrder_def map_nth)
qed

text \<open>
  Claim C5 says that the bytes written do not depend on the order in which the fetches
  complete: an execution that fills the buffers in parallel writes the bytes of a serial
  one. The prefetch goroutines of the List case run the Object case, which assigns the
  result of \<^verbatim>\<open>jsonparser.Get\<close> to the error field of the executor, the field that \<^verbatim>\<open>e.write\<close>
  reads in the rendering walk. Here the data source of the root answers a list of two
  items, the first one malformed. When the goroutines complete in the order they were
  started, the last assignment clears the error and the walk writes \<^verbatim>\<open>{"a":[{}]}\<close>; when
  the goroutine of the first item completes last, its error is pending when the walk
  opens the list, the bracket is not written, and the bytes are \<^verbatim>\<open>{"a":{}]}\<close>. Both
  executions return no error and the same instructions.
\<close>

theorem bytes_depend_on_completion_order:
  "showE (Execute 1 (stubEnv None) newExecutor emptyContext
     (objectListPlan
        (SingleFetch (constSource (''['' @ badItem @ '','' @ goodItem @ '']'') CloseConnection) ''a'')
        (SingleFetch (constSource ''{}'' CloseConnection) ''b''))
     (0, [])) =
     Some (''{'' @ dq @ ''a'' @ dq @ '':[{}]}'', None,
           [CloseConnection, CloseConnection, CloseConnection]) \<and>
   showE (Execute 1 ((stubEnv None)\<lparr>Schedule := (\<lambda>n. rev [0..<n])\<rparr>) newExecutor emptyContext
     (objectListPlan
        (SingleFetch (constSource (''['' @ badItem @ '','' @ goodItem @ '']'') CloseConnection) ''a'')
        (SingleFetch (constSource ''{}'' CloseConnection) ''b''))
     (0, [])) =
     Some (''{'' @ dq @ ''a'' @ dq @ '':{}]}'', None,
           [CloseConnection, CloseConnection, CloseConnection])"
  by code_simp

subsection \<open>Value nodes\<close>

text \<open>
  Claim C10: for every Value node, if the incoming data is the four bytes \<^verbatim>\<open>null\<close>, the
  executor writes \<^verbatim>\<open>null\<close>, unquoted, and returns: whatever the \<^verbatim>\<open>QuoteValue\<close> flag and the
  path of the node, and without calling \<^verbatim>\<open>jsonparser.Get\<close> (the error field is not
  touched). Writing is \<^verbatim>\<open>e.write\<close>: the bytes go to the sink unless an error is pending.
\<close>

theorem value_null_written_unquoted:
  "resolveNode d env (ValueNode keys quoteValue) (Some ''null'') pth shouldFetch e =
     Some (writeBytes env e ''null'') \<and>
   writeBytes env e ''null'' =
     (if err e = None
      then e\<lparr>out := fst (Write env (out e) ''null''), err := snd (Write env (out e) ''null'')\<rparr>
      else e)"
  by (simp add: resolveValue_def bytes_Equal_def bstr_def NULL_def writeBytes_def split: prod.splits)

subsection \<open>List nodes\<close>




subsection \<open>The error of the executor\<close>

text \<open>
  Claim C6 (the first write error is kept and returned, and later writes are elided):
  evaluated on the code. The sink refuses the first write, the \<^verbatim>\<open>{\<close> of the root object.
  The List node of field \<open>a\<close> then stores the result of \<^verbatim>\<open>jsonparser.ArrayEach\<close> in the error
  field, which clears the write error: the writes that follow reach the sink, and
  \<^verbatim>\<open>Execute\<close> returns no error.
\<close>

theorem first_write_error_lost:
  "showE (Execute 1 (stubEnv (Some 0)) newExecutor emptyContext
            (listPlan (SingleFetch (constSource ''[]'' KeepStreamAlive) ''a'')) (0, [])) =
     Some (''[]}'', None, [KeepStreamAlive])"
  by code_simp

subsection \<open>The instructions returned\<close>

text \<open>
  A \<^verbatim>\<open>SerialFetch\<close> or a \<^verbatim>\<open>ParallelFetch\<close> that returns, returns \<^verbatim>\<open>CloseConnection\<close>,
  whatever its inner fetches returned.
\<close>

lemma doFetch_serial: "doFetch d env ctx (SerialFetch fetches) data pth bufs = Some (i, b) \<Longrightarrow> i = CloseConnection"
  by auto

lemma doFetch_parallel: "doFetch d env ctx (ParallelFetch fetches) data pth bufs = Some (i, b) \<Longrightarrow> i = CloseConnection"
  by auto

text \<open>
  Claim C4 says that \<^verbatim>\<open>Execute\<close> returns the instruction of every fetch executed, those of
  the fetches inside a \<^verbatim>\<open>SerialFetch\<close> or a \<^verbatim>\<open>ParallelFetch\<close> too, in execution order. Here
  the fetch of the root is a \<^verbatim>\<open>SerialFetch\<close> of one data source, which answers a list of
  two items and returns \<^verbatim>\<open>CloseConnectionIfNotStream\<close>; every item is an Object with a
  fetch of its own, which returns \<^verbatim>\<open>KeepStreamAlive\<close>. Three data sources are resolved, as
  the three buffers show, and the bytes written are \<^verbatim>\<open>{"a":[{},{}]}\<close>. When no prefetch
  goroutine misses a store, the instructions returned are \<^verbatim>\<open>CloseConnection\<close>,
  \<^verbatim>\<open>KeepStreamAlive\<close>, \<^verbatim>\<open>KeepStreamAlive\<close>: the instruction of the inner fetch is not among
  them. When the goroutine of item 1 loads \<^verbatim>\<open>e.instructions\<close> before the goroutine of item
  0 stores it, the instructions returned are \<^verbatim>\<open>CloseConnection\<close>, \<^verbatim>\<open>KeepStreamAlive\<close>: the
  instruction of one item fetch is lost as well.
\<close>

theorem fetch_instructions_dropped:
  "map_option
     (\<lambda>e. (instructions e, snd (out e),
           map (\<lambda>name. buffers e (Sum64 (stubEnv None) name)) [''query.a'', ''query.a.0.b'', ''query.a.1.b'']))
     (Execute 1 (stubEnv None) newExecutor emptyContext
        (objectListPlan
           (SerialFetch
              [SingleFetch (constSource (''['' @ goodItem @ '','' @ goodItem @ '']'') CloseConnectionIfNotStream) ''a''])
           (SingleFetch (constSource ''{}'' KeepStreamAlive) ''b''))
        (0, [])) =
     Some ([CloseConnection, KeepStreamAlive, KeepStreamAlive],
           ''{'' @ dq @ ''a'' @ dq @ '':[{},{}]}'',
           [Some (''['' @ goodItem @ '','' @ goodItem @ '']''), Some ''{}'', Some ''{}'']) \<and>
   map_option
     (\<lambda>e. (instructions e, snd (out e),
           map (\<lambda>name. buffers e (Sum64 (stubEnv None) name)) [''query.a'', ''query.a.0.b'', ''query.a.1.b'']))
     (Execute 1 ((stubEnv None)\<lparr>Missed := (\<lambda>i. if i = 1 then 1 else 0)\<rparr>) newExecutor emptyContext
        (objectListPlan
           (SerialFetch
              [SingleFetch (constSource (''['' @ goodItem @ '','' @ goodItem @ '']'') CloseConnectionIfNotStream) ''a''])
           (SingleFetch (constSource ''{}'' KeepStreamAlive) ''b''))
        (0, [])) =
     Some ([CloseConnection, KeepStreamAlive],
           ''{'' @ dq @ ''a'' @ dq @ '':[{},{}]}'',
           [Some (''['' @ goodItem @ '','' @ goodItem @ '']''), Some ''{}'', Some ''{}''])"
  by code_simp

subsection \<open>Templates in resolved arguments\<close>

lemma Count_no_dot: "CHR ''.'' \<notin> set key \<Longrightarrow> Count key CHR ''.'' = 0"
  by (induction key) (auto simp: Count_def)

lemma tagByPrefix_find:
  "tagByPrefix env tag resolved =
     (case find (\<lambda>x. prefix (dottedKey tag (Key x)) tag) resolved of
        None \<Rightarrow> ''{{ '' @ tag @ '' }}''
      | Some r \<Rightarrow>
          (let key' = TrimPrefix tag (dottedKey tag (Key r))
           in if key' = [] then Value r
              else bstr (fst (Get env (Value r) (Split (TrimPrefix key' ''.'') CHR ''.'')))))"
  by (induction resolved) (auto simp: Let_def)

text \<open>
  The callback on a tag with one dot, in front, and a name that no key of the arguments
  is a prefix of: what it writes is the name between \<^verbatim>\<open>{{ \<close> and \<^verbatim>\<open> }}\<close>, without the dot.
\<close>

lemma templateTag_one_dot_unknown:
  assumes t: "trimTag tag0 = ''.'' @ key"
    and k: "CHR ''.'' \<notin> set key"
    and u: "\<forall>x\<in>set resolved. \<not> prefix (Key x) key"
  shows "templateTag env resolved tag0 = ''{{ '' @ key @ '' }}''"
proof -
  have c: "Count (trimTag tag0) CHR ''.'' = 1"
    using t Count_no_dot[OF k] by (simp add: Count_def)
  have p: "TrimPrefix (trimTag tag0) ''.'' = key"
    using t by (simp add: TrimPrefix_def)
  from u have f1: "find (\<lambda>r. Key r = key) resolved = None"
    by (auto simp: find_None_iff)
  from k have nd: "\<not> prefix ''.'' key"
    by (cases key) auto
  then have dk: "\<And>x. dottedKey key (Key x) = Key x"
    by (simp add: dottedKey_def)
  from u have f2: "find (\<lambda>x. prefix (dottedKey key (Key x)) key) resolved = None"
    by (simp add: find_None_iff dk)
  show ?thesis
    by (simp add: templateTag_def Let_def c p f1 tagByPrefix_find f2)
qed

text \<open>
  Claim C7 says that a tag matching no sibling argument is preserved verbatim, and that
  \<^verbatim>\<open>{{ .key.a.b }}\<close> is replaced by the navigation of the value of the sibling \<open>key\<close> along
  \<open>a\<close>, \<open>b\<close>. In the first call the argument \<open>q\<close> holds a template with the tag of the
  sibling \<open>x\<close> and the tag \<^verbatim>\<open>{{ .zz }}\<close>, which matches no argument: \<^verbatim>\<open>ResolveArgs\<close> replaces the
  first by the value of \<open>x\<close> and returns the second without its dot, as \<^verbatim>\<open>{{ zz }}\<close>,
  because the callback strips the dot of a tag with one dot and writes the stripped tag
  back. In the second call the sibling \<open>key\<close> holds a document in which the navigation
  along \<open>a\<close>, \<open>b\<close> finds \<open>7\<close>, and an earlier sibling is named \<open>ke\<close>: the callback compares
  by prefix, takes \<open>ke\<close> for the tag \<^verbatim>\<open>{{ .key.a.b }}\<close>, navigates its value along \<open>y\<close>, \<open>a\<close>,
  \<open>b\<close>, and \<open>q\<close> comes back empty.
\<close>

theorem template_tag_not_preserved:
  "ResolveArgs 1 (stubEnv None) emptyContext
     [StaticVariableArgument ''x'' ''5'', StaticVariableArgument ''q'' ''{{ .x }} and {{ .zz }}''] None =
     Some [\<lparr>Key = ''x'', Value = ''5''\<rparr>, \<lparr>Key = ''q'', Value = ''5 and {{ zz }}''\<rparr>] \<and>
   ResolveArgs 1 (stubEnv None) emptyContext
     [StaticVariableArgument ''ke'' ''short'', StaticVariableArgument ''key'' nestedDoc,
      StaticVariableArgument ''q'' ''{{ .key.a.b }}''] None =
     Some [\<lparr>Key = ''ke'', Value = ''short''\<rparr>, \<lparr>Key = ''key'', Value = nestedDoc\<rparr>,
           \<lparr>Key = ''q'', Value = []\<rparr>] \<and>
   bstr (fst (Get (stubEnv None) nestedDoc [''a'', ''b''])) = ''7''"
  by code_simp

end
